theory Spec2Isabelle
  imports Main "HOL-Library.Sublist" "HOL-Library.Signed_Division"
begin

section \<open>The remote-execution client of spread (client.go)\<close>

text \<open>
  A shallow embedding of \<^verbatim>\<open>src/spread/client.go\<close>. Byte slices and Go strings are
  \<^typ>\<open>char list\<close> (one \<^typ>\<open>char\<close> per byte); slices are values, so the sharing of
  backing arrays between slices is not part of the model. Go's \<^verbatim>\<open>int\<close> is \<^typ>\<open>int\<close>
  (lengths and counters stay far from 64 bits); \<^verbatim>\<open>time.Duration\<close> is an \<^typ>\<open>int\<close> of
  nanoseconds with the 64-bit wrap-around written out. Everything the code obtains from
  outside (SSH sessions, the spawned process, timers) is read from an explicit world.
  The output of \<^verbatim>\<open>debugf\<close> is not modelled; \<^verbatim>\<open>printf\<close> appends to a log.
\<close>

subsection \<open>Bytes and the library functions the code calls on them\<close>

type_synonym bytes = "char list"

definition nl :: char where
  "nl = CHR 0x0A"

definition dquote :: char where
  "dquote = CHR 0x22"

definition squote :: char where
  "squote = CHR 0x27"

definition backslash :: char where
  "backslash = CHR 0x5C"

text \<open>
  \<^verbatim>\<open>unicode.IsSpace\<close>, on UTF-8: the encodings of the white-space code points
  U+0009..U+000D, U+0020, U+0085, U+00A0, U+1680, U+2000..U+200A, U+2028, U+2029,
  U+202F, U+205F and U+3000. Any other byte sequence decodes to another rune (or to
  \<^verbatim>\<open>RuneError\<close> of width 1), which is not white space.
\<close>

definition space_runes :: "bytes list" where
  "space_runes =
    [[CHR 0x09], [CHR 0x0A], [CHR 0x0B], [CHR 0x0C], [CHR 0x0D], [CHR 0x20],
     [CHR 0xC2, CHR 0x85], [CHR 0xC2, CHR 0xA0],
     [CHR 0xE1, CHR 0x9A, CHR 0x80],
     [CHR 0xE2, CHR 0x80, CHR 0x80], [CHR 0xE2, CHR 0x80, CHR 0x81],
     [CHR 0xE2, CHR 0x80, CHR 0x82], [CHR 0xE2, CHR 0x80, CHR 0x83],
     [CHR 0xE2, CHR 0x80, CHR 0x84], [CHR 0xE2, CHR 0x80, CHR 0x85],
     [CHR 0xE2, CHR 0x80, CHR 0x86], [CHR 0xE2, CHR 0x80, CHR 0x87],
     [CHR 0xE2, CHR 0x80, CHR 0x88], [CHR 0xE2, CHR 0x80, CHR 0x89],
     [CHR 0xE2, CHR 0x80, CHR 0x8A],
     [CHR 0xE2, CHR 0x80, CHR 0xA8], [CHR 0xE2, CHR 0x80, CHR 0xA9],
     [CHR 0xE2, CHR 0x80, CHR 0xAF],
     [CHR 0xE2, CHR 0x81, CHR 0x9F],
     [CHR 0xE3, CHR 0x80, CHR 0x80]]"

text \<open>The width in bytes of the white-space rune a slice starts (ends) with; 0 if none.\<close>

definition leading_space :: "bytes \<Rightarrow> nat" where
  "leading_space s = (case find (\<lambda>e. prefix e s) space_runes of None \<Rightarrow> 0 | Some e \<Rightarrow> length e)"

definition trailing_space :: "bytes \<Rightarrow> nat" where
  "trailing_space s = (case find (\<lambda>e. suffix e s) space_runes of None \<Rightarrow> 0 | Some e \<Rightarrow> length e)"

text \<open>\<^verbatim>\<open>bytes.TrimLeftFunc(s, unicode.IsSpace)\<close> and \<^verbatim>\<open>bytes.TrimRightFunc\<close>.\<close>

fun TrimLeftSpace :: "bytes \<Rightarrow> bytes" where
  "TrimLeftSpace [] = []"
| "TrimLeftSpace (c # cs) =
     (if leading_space (c # cs) = 0 then c # cs
      else TrimLeftSpace (drop (leading_space (c # cs) - 1) cs))"

function TrimRightSpace :: "bytes \<Rightarrow> bytes" where
  "TrimRightSpace s =
     (if s = [] \<or> trailing_space s = 0 then s
      else TrimRightSpace (take (length s - trailing_space s) s))"
  by pat_completeness auto
termination
  by (relation "measure length") auto

declare TrimRightSpace.simps [simp del]

text \<open>\<^verbatim>\<open>bytes.TrimSpace\<close> and \<^verbatim>\<open>strings.TrimSpace\<close>: white space off both ends.\<close>

definition TrimSpace :: "bytes \<Rightarrow> bytes" where
  "TrimSpace s = TrimRightSpace (TrimLeftSpace s)"

text \<open>\<^verbatim>\<open>bytes.Split(s, []byte{'\n'})\<close>: never empty, the last element is the last line.\<close>

fun Split_nl :: "bytes \<Rightarrow> bytes list" where
  "Split_nl [] = [[]]"
| "Split_nl (c # cs) =
     (if c = nl then [] # Split_nl cs
      else (case Split_nl cs of [] \<Rightarrow> [[c]] | l # ls \<Rightarrow> (c # l) # ls))"

text \<open>\<^verbatim>\<open>lines[len(lines)-1]\<close> of the trimmed output.\<close>

definition last_line :: "bytes \<Rightarrow> bytes" where
  "last_line output = last (Split_nl (TrimSpace output))"

text \<open>\<^verbatim>\<open>bytes.HasPrefix(s, p)\<close>, \<^verbatim>\<open>bytes.TrimPrefix(s, p)\<close>, \<^verbatim>\<open>bytes.Contains(s, "\n")\<close>.\<close>

definition HasPrefix :: "bytes \<Rightarrow> bytes \<Rightarrow> bool" where
  "HasPrefix s p = (take (length p) s = p)"

definition TrimPrefix :: "bytes \<Rightarrow> bytes \<Rightarrow> bytes" where
  "TrimPrefix s p = (if HasPrefix s p then drop (length p) s else s)"

definition Contains_nl :: "bytes \<Rightarrow> bool" where
  "Contains_nl s = (nl \<in> set s)"

subsection \<open>safeBuffer\<close>

text \<open>
  A \<^verbatim>\<open>safeBuffer\<close> is its bytes; the mutex only makes each method atomic, which a
  function on values is. \<^verbatim>\<open>Write\<close> appends, \<^verbatim>\<open>Bytes\<close> is the value, \<^verbatim>\<open>Len\<close> its length.
\<close>

definition Write :: "bytes \<Rightarrow> bytes \<Rightarrow> bytes" where
  "Write buf data = buf @ data"

definition Len :: "bytes \<Rightarrow> int" where
  "Len buf = int (length buf)"

definition unchangedMarker :: bytes where
  "unchangedMarker = ''(...)''"

text \<open>
  The loop of \<^verbatim>\<open>Since\<close>: \<^verbatim>\<open>for i := offset - 1; i > 1; i-- { if data[i] == '\n' ... }\<close>.
  \<open>Some (Some i)\<close>: the loop broke at index \<open>i\<close>; \<open>Some None\<close>: it ran to its end;
  \<open>None\<close>: \<^verbatim>\<open>data[i]\<close> was out of range (a run-time panic).
\<close>

function since_scan :: "bytes \<Rightarrow> int \<Rightarrow> int option option" where
  "since_scan data i =
     (if i > 1 then
        (if i \<ge> int (length data) then None
         else if data ! nat i = nl then Some (Some i)
         else since_scan data (i - 1))
      else Some None)"
  by pat_completeness auto
termination
  by (relation "measure (\<lambda>(data, i). nat i)") auto

declare since_scan.simps [simp del]

text \<open>\<^verbatim>\<open>Since(offset)\<close>: the view and the buffer's length; \<open>None\<close> is the panic.\<close>

definition Since :: "bytes \<Rightarrow> int \<Rightarrow> (bytes \<times> int) option" where
  "Since buf offset =
     (case since_scan buf (offset - 1) of
        None \<Rightarrow> None
      | Some (Some i) \<Rightarrow> Some (TrimSpace (unchangedMarker @ drop (nat i) buf), Len buf)
      | Some None \<Rightarrow> Some (TrimSpace buf, Len buf))"

text \<open>
  The view as the specification words it: \<open>i\<close> is the last newline at an index
  \<open>\<le> offset - 1\<close>; without one, the whole buffer.
\<close>

definition spec_last_newline :: "bytes \<Rightarrow> int \<Rightarrow> nat option" where
  "spec_last_newline buf offset =
     (case filter (\<lambda>i. int i \<le> offset - 1 \<and> buf ! i = nl) [0..<length buf] of
        [] \<Rightarrow> None
      | i # is \<Rightarrow> Some (last (i # is)))"

definition spec_Since :: "bytes \<Rightarrow> int \<Rightarrow> bytes \<times> int" where
  "spec_Since buf offset =
     (case spec_last_newline buf offset of
        None \<Rightarrow> (TrimSpace buf, Len buf)
      | Some i \<Rightarrow> (TrimSpace (unchangedMarker @ drop i buf), Len buf))"

subsection \<open>Errors, results and \<^verbatim>\<open>strconv.Itoa\<close>\<close>

text \<open>
  The error values the code passes around. \<open>ExitError status msg\<close> is the library's
  \<^verbatim>\<open>*ssh.ExitError\<close> or \<^verbatim>\<open>*exec.ExitError\<close> with its exit status and message;
  \<open>ErrorString\<close> is any other error (those made by \<^verbatim>\<open>fmt.Errorf\<close> included);
  \<open>RebootError\<close> is \<^verbatim>\<open>*rebootError\<close> with its \<^verbatim>\<open>Key\<close>.
  Modelled from the spec: \<open>FatalError\<close>, whose declaration is not in client.go, is
  "a wrapper error indicating a FATAL sentinel was observed"; it wraps the error it is
  built from.
\<close>

datatype error =
    ExitError int string
  | ErrorString string
  | RebootError string
  | FatalError error

fun Error :: "error \<Rightarrow> string" where
  "Error (ExitError status msg) = msg"
| "Error (ErrorString msg) = msg"
| "Error (RebootError key) = ''reboot requested''"
| "Error (FatalError e) = Error e"

text \<open>
  What a call does: it returns a value, panics, or never returns (it waits for an event
  the world does not deliver). \<open>OutOfFuel\<close> is the model's own: the recursion of
  \<^verbatim>\<open>run\<close> through \<^verbatim>\<open>c.Run\<close> is bounded by a counter.
\<close>

datatype 'a outcome = Returns 'a | Panics | Blocks | OutOfFuel

function digits :: "nat \<Rightarrow> string" where
  "digits n = (if n < 10 then [char_of (48 + n)] else digits (n div 10) @ [char_of (48 + n mod 10)])"
  by pat_completeness auto
termination
  by (relation "measure id") auto

declare digits.simps [simp del]

definition Itoa :: "int \<Rightarrow> string" where
  "Itoa i = (if i < 0 then CHR ''-'' # digits (nat (- i)) else digits (nat i))"

subsection \<open>Environment\<close>

text \<open>
  Modelled from the spec: the \<^verbatim>\<open>Environment\<close> type and its methods \<^verbatim>\<open>Keys\<close>, \<^verbatim>\<open>Get\<close> and
  \<^verbatim>\<open>Set\<close> are declared outside client.go. The specification has it as "an ordered
  mapping from shell-identifier keys to string values" that "preserves insertion order
  via Keys()": an association list in insertion order. \<^verbatim>\<open>Get\<close> of a missing key is the
  empty string; \<^verbatim>\<open>Set\<close> of a present key replaces its value in place, \<^verbatim>\<open>Set\<close> of a new
  key appends it.
\<close>

type_synonym Environment = "(string \<times> string) list"

definition NewEnvironment :: Environment where
  "NewEnvironment = []"

definition Keys :: "Environment \<Rightarrow> string list" where
  "Keys e = map fst e"

definition Get :: "Environment \<Rightarrow> string \<Rightarrow> string" where
  "Get e k = (case map_of e k of None \<Rightarrow> [] | Some v \<Rightarrow> v)"

definition Set :: "Environment \<Rightarrow> string \<Rightarrow> string \<Rightarrow> Environment" where
  "Set e k v =
     (if k \<in> set (Keys e) then map (\<lambda>p. if fst p = k then (k, v) else p) e
      else e @ [(k, v)])"

subsection \<open>Client and its timeouts\<close>

text \<open>
  \<^verbatim>\<open>time.Duration\<close> is a 64-bit count of nanoseconds; \<open>wrap64\<close> is the wrap-around of
  64-bit arithmetic. Go's \<^verbatim>\<open>%\<close> truncates towards zero (\<open>smod\<close>) and panics on a zero
  divisor.
\<close>

definition wrap64 :: "int \<Rightarrow> int" where
  "wrap64 x = (x + 2 ^ 63) mod 2 ^ 64 - 2 ^ 63"

definition is_int64 :: "int \<Rightarrow> bool" where
  "is_int64 x = (- (2 ^ 63) \<le> x \<and> x < 2 ^ 63)"

definition Millisecond :: int where
  "Millisecond = 1000000"

definition Second :: int where
  "Second = 1000000000"

definition Minute :: int where
  "Minute = 60 * Second"

definition Hour :: int where
  "Hour = 60 * Minute"

definition defaultWarnTimeout :: int where
  "defaultWarnTimeout = 5 * Minute"

definition defaultKillTimeout :: int where
  "defaultKillTimeout = 15 * Minute"

definition maxTimeout :: int where
  "maxTimeout = 365 * 24 * Hour"

text \<open>
  The fields of \<^verbatim>\<open>Client\<close> the modelled code reads: the server's name (what \<^verbatim>\<open>%s\<close>
  prints for \<^verbatim>\<open>c.server\<close>), \<^verbatim>\<open>config.User\<close>, and the two timeouts. The transport
  \<^verbatim>\<open>sshc\<close> is the world's.
\<close>

record Client =
  server :: string
  user :: string
  warnTimeout :: int
  killTimeout :: int

text \<open>\<^verbatim>\<open>SetWarnTimeout\<close> and \<^verbatim>\<open>SetKillTimeout\<close>; \<open>Panics\<close> is the division by zero.\<close>

definition SetWarnTimeout :: "Client \<Rightarrow> int \<Rightarrow> Client outcome" where
  "SetWarnTimeout c timeout =
     (let timeout = (if timeout = 0 then defaultWarnTimeout
                     else if timeout = - 1 then maxTimeout
                     else timeout);
          c = c\<lparr>warnTimeout := timeout\<rparr>
      in if warnTimeout c = 0 then Panics
         else if killTimeout c smod warnTimeout c = 0
         then Returns (c\<lparr>killTimeout := wrap64 (killTimeout c - 1 * Second)\<rparr>)
         else Returns c)"

definition SetKillTimeout :: "Client \<Rightarrow> int \<Rightarrow> Client outcome" where
  "SetKillTimeout c timeout =
     (let timeout = (if timeout = 0 then defaultKillTimeout
                     else if timeout = - 1 then maxTimeout
                     else timeout);
          c = c\<lparr>killTimeout := timeout\<rparr>
      in if warnTimeout c = 0 then Panics
         else if killTimeout c smod warnTimeout c = 0
         then Returns (c\<lparr>killTimeout := wrap64 (killTimeout c - 1 * Second)\<rparr>)
         else Returns c)"

text \<open>
  The same normalisation as \<^verbatim>\<open>runScript\<close> does it on its two parameters (lines 678-692):
  the pair \<open>(warn, kill)\<close> of its parameters \<^verbatim>\<open>warnTimeout\<close> and \<^verbatim>\<open>killTimeout\<close> that its
  timers are started with.
\<close>

definition runScript_timeouts :: "int \<Rightarrow> int \<Rightarrow> (int \<times> int) outcome" where
  "runScript_timeouts warn kill =
     (let warn = (if warn = 0 then defaultWarnTimeout
                  else if warn = - 1 then maxTimeout
                  else warn);
          kill = (if kill = 0 then defaultKillTimeout
                  else if kill = - 1 then maxTimeout
                  else kill)
      in if warn = 0 then Panics
         else if kill smod warn = 0
         then Returns (warn, wrap64 (kill - 1 * Second))
         else Returns (warn, kill))"

text \<open>\<^verbatim>\<open>sudo()\<close>.\<close>

definition sudo :: "Client \<Rightarrow> string" where
  "sudo c = (if user c = ''root'' then [] else ''sudo -i '')"

subsection \<open>The command supervisor\<close>

text \<open>
  What can happen while a started command is supervised, in the order the \<^verbatim>\<open>select\<close>
  sees it: the command writes to the buffer attached as its standard output or error,
  the warn ticker ticks, the kill timer fires, or \<^verbatim>\<open>Wait\<close> delivers the command's result
  on \<^verbatim>\<open>done\<close>.
\<close>

datatype event =
    WriteStdout bytes
  | WriteStderr bytes
  | Warn
  | Kill
  | Done "error option"

text \<open>
  The state of one supervised command: the two \<^verbatim>\<open>safeBuffer\<close>s, the reporter's
  \<^verbatim>\<open>lastOut\<close> and \<^verbatim>\<open>lastErr\<close>, whether the command was sent \<^verbatim>\<open>SIGKILL\<close>
  (\<^verbatim>\<open>session.Signal(ssh.SIGKILL)\<close>, locally \<^verbatim>\<open>cmd.Process.Kill()\<close>), and what \<^verbatim>\<open>printf\<close>
  has logged.
\<close>

record supervisor =
  outbuf :: bytes
  errbuf :: bytes
  lastOut :: int
  lastErr :: int
  killed :: bool
  log :: "string list"

definition printf :: "string \<Rightarrow> supervisor \<Rightarrow> supervisor" where
  "printf msg st = st\<lparr>log := log st @ [msg]\<rparr>"

text \<open>
  The report of a warn tick from the two views (lines 590-597 and 716-722):
  \<^verbatim>\<open>if len(output) == 0 || bytes.HasPrefix(errput, output) { output = errput }
  else if len(errput) > 0 { output = append(output, '\n', '\n'); output = append(output, errput...) }\<close>.
\<close>

definition warn_output :: "bytes \<Rightarrow> bytes \<Rightarrow> bytes" where
  "warn_output output errput =
     (if length output = 0 \<or> HasPrefix errput output then errput
      else if length errput > 0 then (output @ [nl, nl]) @ errput
      else output)"

text \<open>The three messages of a warn tick; \<open>who\<close> is the server or \<^verbatim>\<open>local script\<close>.\<close>

definition warn_message :: "string \<Rightarrow> bytes \<Rightarrow> string" where
  "warn_message who output =
     (if output = unchangedMarker then ''WARNING: '' @ who @ '' running late. Output unchanged.''
      else if length output = 0 then ''WARNING: '' @ who @ '' running late. Output still empty.''
      else ''WARNING: '' @ who @ '' running late. Current output:'' @ [nl] @ ''-----'' @ [nl]
             @ output @ [nl] @ ''-----'')"

definition kill_marker :: bytes where
  "kill_marker = [nl] @ ''<kill-timeout reached>''"

text \<open>
  The \<^verbatim>\<open>case <-warn.C\<close> branch of \<^verbatim>\<open>runCommand\<close>. \<open>stdout\<close> and \<open>stderr\<close> say whether the
  caller passed a \<^verbatim>\<open>*safeBuffer\<close> (every caller passes one or \<^verbatim>\<open>nil\<close>). \<open>None\<close> is
  the panic of \<^verbatim>\<open>Since\<close>.
\<close>

definition runCommand_warn :: "Client \<Rightarrow> bool \<Rightarrow> bool \<Rightarrow> supervisor \<Rightarrow> supervisor option" where
  "runCommand_warn c stdout stderr st =
     (case (if stdout then Since (outbuf st) (lastOut st) else Some ([], lastOut st)) of
        None \<Rightarrow> None
      | Some (output, lastOut') \<Rightarrow>
          (case (if stderr then Since (errbuf st) (lastErr st) else Some ([], lastErr st)) of
             None \<Rightarrow> None
           | Some (errput, lastErr') \<Rightarrow>
               (let output = (if stderr then warn_output output errput else output)
                in Some (printf (warn_message (server c) output)
                           (st\<lparr>lastOut := lastOut', lastErr := lastErr'\<rparr>)))))"

text \<open>
  The \<^verbatim>\<open>case <-kill\<close> branch of \<^verbatim>\<open>runCommand\<close>, up to its \<^verbatim>\<open>return\<close>: the signal, and the
  marker written to \<^verbatim>\<open>stdout\<close>, or to \<^verbatim>\<open>stderr\<close> when \<^verbatim>\<open>stdout\<close> is \<^verbatim>\<open>nil\<close>.
\<close>

definition runCommand_kill :: "bool \<Rightarrow> bool \<Rightarrow> supervisor \<Rightarrow> supervisor" where
  "runCommand_kill stdout stderr st =
     (let st = st\<lparr>killed := True\<rparr>
      in if stdout then st\<lparr>outbuf := Write (outbuf st) kill_marker\<rparr>
         else if stderr then st\<lparr>errbuf := Write (errbuf st) kill_marker\<rparr>
         else st)"

text \<open>
  The \<^verbatim>\<open>for { select { ... } }\<close> of \<^verbatim>\<open>runCommand\<close> over the events to come. When they run
  out with the command neither done nor killed, the \<^verbatim>\<open>select\<close> waits for ever.
\<close>

fun runCommand_loop ::
  "Client \<Rightarrow> bool \<Rightarrow> bool \<Rightarrow> supervisor \<Rightarrow> event list \<Rightarrow> supervisor \<times> error option outcome" where
  "runCommand_loop c stdout stderr st [] = (st, Blocks)"
| "runCommand_loop c stdout stderr st (WriteStdout data # evs) =
     runCommand_loop c stdout stderr (st\<lparr>outbuf := Write (outbuf st) data\<rparr>) evs"
| "runCommand_loop c stdout stderr st (WriteStderr data # evs) =
     runCommand_loop c stdout stderr (st\<lparr>errbuf := Write (errbuf st) data\<rparr>) evs"
| "runCommand_loop c stdout stderr st (Done err # evs) = (st, Returns err)"
| "runCommand_loop c stdout stderr st (Kill # evs) =
     (runCommand_kill stdout stderr st, Returns (Some (ErrorString ''kill-timeout reached'')))"
| "runCommand_loop c stdout stderr st (Warn # evs) =
     (case runCommand_warn c stdout stderr st of
        None \<Rightarrow> (st, Panics)
      | Some st' \<Rightarrow> runCommand_loop c stdout stderr st' evs)"

text \<open>
  \<^verbatim>\<open>runCommand\<close>: \<open>start\<close> is the result of \<^verbatim>\<open>session.Start(cmd)\<close>, \<open>evs\<close> what happens
  after it.
\<close>

definition runCommand ::
  "Client \<Rightarrow> error option \<Rightarrow> event list \<Rightarrow> bool \<Rightarrow> bool \<Rightarrow> supervisor
     \<Rightarrow> supervisor \<times> error option outcome" where
  "runCommand c start evs stdout stderr st =
     (case start of
        Some err \<Rightarrow> (st, Returns (Some (ErrorString (''cannot start remote command: '' @ Error err))))
      | None \<Rightarrow> runCommand_loop c stdout stderr st evs)"

text \<open>
  The same loop in \<^verbatim>\<open>runScript\<close> (lines 699-731), where both buffers always exist. Its
  \<^verbatim>\<open>case <-kill\<close> kills the process, writes the marker to \<^verbatim>\<open>errbuf\<close> when that holds
  bytes and to \<^verbatim>\<open>outbuf\<close> otherwise, and assigns \<^verbatim>\<open>err\<close>; it has no \<^verbatim>\<open>break Loop\<close>, so
  the loop goes on and only \<^verbatim>\<open>case err = <-done\<close> leaves it, with \<^verbatim>\<open>err\<close> overwritten.
\<close>

definition runScript_warn :: "supervisor \<Rightarrow> supervisor option" where
  "runScript_warn st =
     (case Since (outbuf st) (lastOut st) of
        None \<Rightarrow> None
      | Some (output, lastOut') \<Rightarrow>
          (case Since (errbuf st) (lastErr st) of
             None \<Rightarrow> None
           | Some (errput, lastErr') \<Rightarrow>
               Some (printf (warn_message ''local script'' (warn_output output errput))
                       (st\<lparr>lastOut := lastOut', lastErr := lastErr'\<rparr>))))"

definition runScript_kill :: "supervisor \<Rightarrow> supervisor" where
  "runScript_kill st =
     (let st = st\<lparr>killed := True\<rparr>
      in if Len (errbuf st) > 0 then st\<lparr>errbuf := Write (errbuf st) kill_marker\<rparr>
         else st\<lparr>outbuf := Write (outbuf st) kill_marker\<rparr>)"

fun runScript_loop :: "supervisor \<Rightarrow> event list \<Rightarrow> supervisor \<times> error option outcome" where
  "runScript_loop st [] = (st, Blocks)"
| "runScript_loop st (WriteStdout data # evs) =
     runScript_loop (st\<lparr>outbuf := Write (outbuf st) data\<rparr>) evs"
| "runScript_loop st (WriteStderr data # evs) =
     runScript_loop (st\<lparr>errbuf := Write (errbuf st) data\<rparr>) evs"
| "runScript_loop st (Done err # evs) = (st, Returns err)"
| "runScript_loop st (Kill # evs) = runScript_loop (runScript_kill st) evs"
| "runScript_loop st (Warn # evs) =
     (case runScript_warn st of
        None \<Rightarrow> (st, Panics)
      | Some st' \<Rightarrow> runScript_loop st' evs)"

subsection \<open>The two marker expressions\<close>

text \<open>
  \<^verbatim>\<open>rebootExp = regexp.MustCompile("^<REBOOT(?: (.*))?>$")\<close> and its \<^verbatim>\<open>FindSubmatch\<close>:
  \<open>None\<close> is no match, \<open>Some key\<close> a match whose group 1, as a string, is \<open>key\<close> (the
  empty string when the group takes no part). Both ends are anchored, so a matching line
  is \<^verbatim>\<open><REBOOT>\<close>, or \<^verbatim>\<open><REBOOT \<close> followed by the key and a last \<^verbatim>\<open>>\<close>; \<^verbatim>\<open>.\<close> matches
  every byte but the newline.
\<close>

definition rebootExp_FindSubmatch :: "bytes \<Rightarrow> bytes option" where
  "rebootExp_FindSubmatch line =
     (if line = ''<REBOOT>'' then Some []
      else if HasPrefix line ''<REBOOT '' \<and> 9 \<le> length line \<and> last line = CHR ''>''
              \<and> nl \<notin> set line
      then Some (take (length line - 9) (drop 8 line))
      else None)"

text \<open>
  \<^verbatim>\<open>commandExp = regexp.MustCompile("^<([A-Z_]+)(?: (.*))?>$")\<close>: a match gives groups 1
  and 2. Group 1 is the longest run of \<^verbatim>\<open>A-Z\<close> and \<^verbatim>\<open>_\<close> after \<^verbatim>\<open><\<close>, since the next byte
  must be a space or the last \<^verbatim>\<open>>\<close>.
\<close>

definition upper_or_underscore :: "char \<Rightarrow> bool" where
  "upper_or_underscore ch =
     ((65 \<le> (of_char ch :: nat) \<and> (of_char ch :: nat) \<le> 90) \<or> ch = CHR ''_'')"

definition commandExp_FindSubmatch :: "bytes \<Rightarrow> (bytes \<times> bytes) option" where
  "commandExp_FindSubmatch line =
     (case line of
        [] \<Rightarrow> None
      | ch # rest \<Rightarrow>
          (let name = takeWhile upper_or_underscore rest;
               after = dropWhile upper_or_underscore rest
           in if ch \<noteq> CHR ''<'' \<or> name = [] then None
              else if after = ''>'' then Some (name, [])
              else if 2 \<le> length after \<and> hd after = CHR '' '' \<and> last after = CHR ''>''
                      \<and> nl \<notin> set after
              then Some (name, butlast (tl after))
              else None))"

subsection \<open>The assembled scripts\<close>

definition traceOutput :: int where
  "traceOutput = 0"

definition combinedOutput :: int where
  "combinedOutput = 1"

definition splitOutput :: int where
  "splitOutput = 2"

definition shellOutput :: int where
  "shellOutput = 3"

text \<open>
  One turn of \<^verbatim>\<open>for _, k := range env.Keys()\<close> (lines 308-315 and 629-636): what
  \<^verbatim>\<open>fmt.Fprintf\<close> appends to the buffer for the key \<open>k\<close> with value \<open>v\<close>.
\<close>

definition write_export :: "bytes \<Rightarrow> string \<Rightarrow> string \<Rightarrow> bytes" where
  "write_export buf k v =
     (if length v = 0 \<or> hd v = dquote \<or> hd v = squote
      then buf @ ''export '' @ k @ ''='' @ v @ [nl]
      else buf @ ''export '' @ k @ ''='' @ [dquote] @ v @ [dquote] @ [nl])"

fun write_exports :: "bytes \<Rightarrow> Environment \<Rightarrow> string list \<Rightarrow> bytes" where
  "write_exports buf env [] = buf"
| "write_exports buf env (k # ks) = write_exports (write_export buf k (Get env k)) env ks"

definition REBOOT_function :: bytes where
  \<open>REBOOT_function =
    ''REBOOT() { { set +xu; } 2> /dev/null; [ -z "$1" ] && echo '<REBOOT>' || echo "<REBOOT $1>"; exit 213; }\<newline>''\<close>

definition ADDRESS_function :: bytes where
  \<open>ADDRESS_function =
    ''ADDRESS() { { set +xu; } 2> /dev/null; [ -z "$1" ] && echo '<ADDRESS>' || echo "<ADDRESS $1>"; }\<newline>''\<close>

definition FATAL_function :: bytes where
  \<open>FATAL_function =
    ''FATAL() { { set +xu; } 2> /dev/null; [ -z "$1" ] && echo '<FATAL>' || echo "<FATAL $@>"; exit 213; }\<newline>''\<close>

definition ERROR_function :: bytes where
  \<open>ERROR_function =
    ''ERROR() { { set +xu; } 2> /dev/null; [ -z "$1" ] && echo '<ERROR>' || echo "<ERROR $@>"; exit 213; }\<newline>''\<close>

text \<open>
  The buffer \<^verbatim>\<open>buf\<close> of \<^verbatim>\<open>runPart\<close> (lines 300-330); \<open>script\<close> is the trimmed script
  with its newline.
\<close>

definition runPart_script :: "string \<Rightarrow> string \<Rightarrow> Environment \<Rightarrow> int \<Rightarrow> bytes" where
  \<open>runPart_script script dir env mode =
     (let buf = [];
          buf = (if dir \<noteq> [] then buf @ ''cd "'' @ dir @ ''"\<newline>'' else buf);
          buf = buf @ REBOOT_function;
          buf = buf @ ''export DEBIAN_FRONTEND=noninteractive\<newline>'';
          buf = buf @ ''export DEBIAN_PRIORITY=critical\<newline>'';
          buf = write_exports buf env (Keys env);
          buf = (if mode = shellOutput \<and> Get env ''PS1'' \<noteq> []
                 then buf @ ''echo PS1='' @ [backslash, squote, squote] @ Get env ''PS1''
                        @ [squote, backslash, squote] @ '' > /root/.bashrc\<newline>''
                 else buf);
          buf = (if mode = traceOutput then buf @ ''set -x\<newline>'' else buf);
          buf = (if mode = shellOutput then buf @ ''\<newline>'' @ script @ ''\<newline>''
                 else buf @ ''\<newline>(\<newline>'' @ script @ ''\<newline>) < /dev/null\<newline>'')
      in buf)\<close>

text \<open>The buffer \<^verbatim>\<open>buf\<close> of \<^verbatim>\<open>runScript\<close> (lines 622-645).\<close>

definition runScript_script :: "string \<Rightarrow> Environment \<Rightarrow> int \<Rightarrow> bytes" where
  \<open>runScript_script script env mode =
     (let buf = [];
          buf = buf @ ADDRESS_function;
          buf = buf @ FATAL_function;
          buf = buf @ ERROR_function;
          buf = buf @ ''export DEBIAN_FRONTEND=noninteractive\<newline>'';
          buf = buf @ ''export DEBIAN_PRIORITY=critical\<newline>'';
          buf = write_exports buf env (Keys env);
          buf = (if mode = traceOutput then buf @ ''set -x\<newline>'' else buf);
          buf = buf @ ''\<newline>(\<newline>'' @ script @ ''\<newline>) < /dev/null\<newline>''
      in buf)\<close>

text \<open>
  The lines of a script that begin with \<^verbatim>\<open>export k=\<close>, for the specification's count of
  them.
\<close>

definition export_lines :: "string \<Rightarrow> bytes \<Rightarrow> bytes list" where
  "export_lines k script = filter (\<lambda>l. HasPrefix l (''export '' @ k @ ''='')) (Split_nl script)"

text \<open>\<^verbatim>\<open>outputErr\<close>.\<close>

definition outputErr :: "bytes \<Rightarrow> error \<Rightarrow> error" where
  "outputErr output err =
     (let output = TrimSpace output
      in if length output > 0
         then (if Contains_nl output
               then ErrorString ([nl] @ ''-----'' @ [nl] @ output @ [nl] @ ''-----'')
               else ErrorString output)
         else err)"

subsection \<open>The world\<close>

text \<open>
  What the outside does, in the order the code asks for it. A \<open>session\<close> holds the results
  of the calls \<^verbatim>\<open>runPart\<close> makes on one SSH session: \<^verbatim>\<open>c.sshc.NewSession()\<close>,
  \<^verbatim>\<open>session.StdinPipe()\<close>, in shell mode \<^verbatim>\<open>terminal.GetSize\<close>, \<^verbatim>\<open>session.RequestPty\<close>,
  \<^verbatim>\<open>terminal.MakeRaw\<close> and \<^verbatim>\<open>session.Run\<close>, otherwise \<^verbatim>\<open>session.Start\<close> and the events
  that follow it, and the first value the writer puts on \<^verbatim>\<open>errch\<close>. A \<open>reboot\<close> holds
  what a reboot request meets: whether the \<^verbatim>\<open>timedout\<close> channel is ready when polled, and
  the result of \<^verbatim>\<open>dialOnReboot\<close> (its dialling and timers are the world's). A \<open>process\<close>
  is a local \<^verbatim>\<open>/bin/bash\<close>: the result of \<^verbatim>\<open>cmd.Start\<close> and the events after it.
  \<open>sent\<close> records each command line run with the script given to it on standard input;
  \<open>printed\<close> is the log of \<^verbatim>\<open>printf\<close>.
\<close>

record session =
  NewSession_err :: "error option"
  StdinPipe_err :: "error option"
  GetSize_err :: "error option"
  RequestPty_err :: "error option"
  MakeRaw_err :: "error option"
  Run_err :: "error option"
  Start_err :: "error option"
  events :: "event list"
  errch :: "error option"

record reboot =
  timedout :: bool
  dialOnReboot :: "error option"

record process =
  cmd_Start_err :: "error option"
  cmd_events :: "event list"

record world =
  sessions :: "session list"
  reboots :: "reboot list"
  processes :: "process list"
  sent :: "(string \<times> bytes) list"
  printed :: "string list"

definition new_supervisor :: "world \<Rightarrow> supervisor" where
  "new_supervisor w =
     \<lparr>outbuf = [], errbuf = [], lastOut = 0, lastErr = 0, killed = False, log = printed w\<rparr>"

subsection \<open>The remote executor\<close>

definition errmsg :: bytes where
  "errmsg = ''mesg: ttyname failed: Inappropriate ioctl for device''"

text \<open>
  \<^verbatim>\<open>runPart\<close> from the command's return on (lines 392-424): \<open>stdout\<close> and \<open>stderr\<close> are the
  bytes of the two buffers, \<open>err\<close> the command's error, \<open>werr\<close> the value read from
  \<^verbatim>\<open>errch\<close>.
\<close>

definition runPart_finish ::
  "Client \<Rightarrow> world \<Rightarrow> int \<Rightarrow> bytes \<Rightarrow> bytes \<Rightarrow> bytes \<Rightarrow> error option \<Rightarrow> error option
     \<Rightarrow> world \<times> bytes \<times> error option" where
  "runPart_finish c w mode previous stdout stderr err werr =
     (case (case err of
              Some (ExitError status msg) \<Rightarrow>
                (if status = 213 then rebootExp_FindSubmatch (last_line stdout) else None)
            | _ \<Rightarrow> None) of
        Some key \<Rightarrow> (w, previous @ stdout, Some (RebootError key))
      | None \<Rightarrow>
          (let output = (if err = None \<or> mode \<noteq> splitOutput then stdout
                         else if mode = splitOutput then stderr
                         else []);
               output = TrimSpace (TrimPrefix output errmsg);
               output = previous @ output
           in case err of
                Some e \<Rightarrow> (w, [], Some (outputErr output e))
              | None \<Rightarrow>
                  (case werr of
                     Some e \<Rightarrow>
                       (w\<lparr>printed := printed w
                            @ [''Error writing script to '' @ server c @ '': '' @ Error e]\<rparr>,
                        output, None)
                   | None \<Rightarrow> (w, output, None))))"

text \<open>\<^verbatim>\<open>runPart\<close>. A world with no session left never answers \<^verbatim>\<open>NewSession\<close>.\<close>

definition runPart ::
  "Client \<Rightarrow> world \<Rightarrow> string \<Rightarrow> string \<Rightarrow> Environment \<Rightarrow> int \<Rightarrow> bytes
     \<Rightarrow> (world \<times> bytes \<times> error option) outcome" where
  \<open>runPart c w script dir env mode previous =
     (let script = TrimSpace script
      in if length script = 0 then Returns (w, [], None)
         else
           (let script = script @ [nl]
            in case sessions w of
                 [] \<Rightarrow> Blocks
               | s # rest \<Rightarrow>
                   (let w = w\<lparr>sessions := rest\<rparr>;
                        buf = runPart_script script dir env mode
                    in if NewSession_err s \<noteq> None then Returns (w, [], NewSession_err s)
                       else if mode \<noteq> shellOutput \<and> StdinPipe_err s \<noteq> None
                       then Returns (w, [], StdinPipe_err s)
                       else if mode = traceOutput \<or> mode = combinedOutput
                       then
                         (let cmd = sudo c @ ''/bin/bash -eu - 2>&1'';
                              w = w\<lparr>sent := sent w @ [(cmd, buf)]\<rparr>
                          in case runCommand c (Start_err s) (events s) True True (new_supervisor w) of
                               (st, Returns err) \<Rightarrow>
                                 Returns (runPart_finish c (w\<lparr>printed := log st\<rparr>) mode previous
                                            (outbuf st) (errbuf st) err (errch s))
                             | (st, Panics) \<Rightarrow> Panics
                             | (st, Blocks) \<Rightarrow> Blocks
                             | (st, OutOfFuel) \<Rightarrow> OutOfFuel)
                       else if mode = splitOutput
                       then
                         (let cmd = sudo c @ ''/bin/bash -eu -'';
                              w = w\<lparr>sent := sent w @ [(cmd, buf)]\<rparr>
                          in case runCommand c (Start_err s) (events s) True True (new_supervisor w) of
                               (st, Returns err) \<Rightarrow>
                                 Returns (runPart_finish c (w\<lparr>printed := log st\<rparr>) mode previous
                                            (outbuf st) (errbuf st) err (errch s))
                             | (st, Panics) \<Rightarrow> Panics
                             | (st, Blocks) \<Rightarrow> Blocks
                             | (st, OutOfFuel) \<Rightarrow> OutOfFuel)
                       else if mode = shellOutput
                       then
                         (let cmd = ''{\<newline>f=$(mktemp)\<newline>trap 'rm '$f EXIT\<newline>cat > $f <<SCRIPT_END\<newline>''
                                      @ buf @ ''\<newline>SCRIPT_END\<newline>'' @ sudo c @ ''/bin/bash $f\<newline>}''
                          in case GetSize_err s of
                               Some e \<Rightarrow>
                                 Returns (w, [], Some (ErrorString
                                   (''cannot get local terminal size: '' @ Error e)))
                             | None \<Rightarrow>
                                 (case RequestPty_err s of
                                    Some e \<Rightarrow>
                                      Returns (w, [], Some (ErrorString
                                        (''cannot get remote pseudo terminal: '' @ Error e)))
                                  | None \<Rightarrow>
                                      (case MakeRaw_err s of
                                         Some e \<Rightarrow>
                                           Returns (w, [], Some (ErrorString
                                             (''cannot put local terminal in raw mode: '' @ Error e)))
                                       | None \<Rightarrow>
                                           Returns (runPart_finish c (w\<lparr>sent := sent w @ [(cmd, [])]\<rparr>)
                                                      mode previous [] [] (Run_err s) None))))
                       else Panics)))\<close>

definition maxReboots :: int where
  "maxReboots = 10"

text \<open>
  \<^verbatim>\<open>%.0f\<close> of \<^verbatim>\<open>Duration.Seconds()\<close>: the number of seconds rounded to the nearest integer,
  a half to the even one (the rounding of the conversion to \<^verbatim>\<open>float64\<close> is left out).
\<close>

definition fmt_seconds :: "int \<Rightarrow> string" where
  "fmt_seconds d =
     (let q = \<bar>d\<bar> div Second; r = \<bar>d\<bar> mod Second;
          n = (if 2 * r < Second then q else if 2 * r > Second then q + 1
               else if even q then q else q + 1)
      in (if d < 0 then ''-'' else []) @ digits (nat n))"

text \<open>The loop variables of \<^verbatim>\<open>run\<close>, with the world and the environment it works on.\<close>

record run_state =
  rs_world :: world
  rs_env :: Environment
  reboot_count :: int
  rebootKey :: string
  rs_output :: bytes

datatype step =
    Continue run_state
  | Return world Environment bytes "error option"

text \<open>
  The key and the environment of one attempt (lines 248-251):
  \<^verbatim>\<open>if rebootKey == "" { rebootKey = strconv.Itoa(reboot) }; env.Set("SPREAD_REBOOT", rebootKey)\<close>.
\<close>

definition attempt_key :: "run_state \<Rightarrow> string" where
  "attempt_key st = (if rebootKey st = [] then Itoa (reboot_count st) else rebootKey st)"

definition attempt_env :: "run_state \<Rightarrow> Environment" where
  "attempt_env st = Set (rs_env st) ''SPREAD_REBOOT'' (attempt_key st)"

definition initial_state :: "world \<Rightarrow> Environment \<Rightarrow> run_state" where
  "initial_state w env = \<lparr>rs_world = w, rs_env = env, reboot_count = 0, rebootKey = [], rs_output = []\<rparr>"

text \<open>
  The branch \<^verbatim>\<open>if err == nil\<close> after the reboot command (lines 271-278): the poll of
  \<^verbatim>\<open>timedout\<close> and the two errors. A world with no reboot left has the channel not ready.
\<close>

definition run_reboot_failed :: "Client \<Rightarrow> Environment \<Rightarrow> world \<Rightarrow> step outcome" where
  "run_reboot_failed c env w =
     (case reboots w of
        [] \<Rightarrow> Returns (Return w env [] (Some (ErrorString (''reboot request on '' @ server c @ '' failed''))))
      | r # rest \<Rightarrow>
          (if timedout r
           then Returns (Return (w\<lparr>reboots := rest\<rparr>) env []
                  (Some (ErrorString (''kill-timeout reached while waiting for '' @ server c @ '' to reboot''))))
           else Returns (Return (w\<lparr>reboots := rest\<rparr>) env []
                  (Some (ErrorString (''reboot request on '' @ server c @ '' failed''))))))"

text \<open>
  \<open>run_step\<close> is the body of the \<^verbatim>\<open>for\<close> of \<^verbatim>\<open>run\<close>, \<open>run_loop\<close> the loop with its
  \<^verbatim>\<open>reboot++\<close>. \<^verbatim>\<open>fmt.Errorf("%s rebooted more than %d times", c.server)\<close> has no operand
  for \<^verbatim>\<open>%d\<close>, for which \<^verbatim>\<open>fmt\<close> prints \<^verbatim>\<open>%!d(MISSING)\<close>. The two \<^verbatim>\<open>c.Run\<close> re-enter
  \<^verbatim>\<open>run\<close> with \<^verbatim>\<open>nil\<close> for the environment, hence a new one, in combined mode; the first
  argument bounds this recursion.
\<close>

fun run_step :: "nat \<Rightarrow> Client \<Rightarrow> string \<Rightarrow> string \<Rightarrow> int \<Rightarrow> run_state \<Rightarrow> step outcome"
  and run_loop :: "nat \<Rightarrow> Client \<Rightarrow> string \<Rightarrow> string \<Rightarrow> int \<Rightarrow> run_state
         \<Rightarrow> (world \<times> Environment \<times> bytes \<times> error option) outcome" where
  "run_step n c script dir mode st =
     (let key = attempt_key st;
          env = attempt_env st
      in case runPart c (rs_world st) script dir env mode (rs_output st) of
           Panics \<Rightarrow> Panics
         | Blocks \<Rightarrow> Blocks
         | OutOfFuel \<Rightarrow> OutOfFuel
         | Returns (w, out, err) \<Rightarrow>
             (case err of
                Some (RebootError rkey) \<Rightarrow>
                  if reboot_count st > maxReboots
                  then Returns (Return w env []
                         (Some (ErrorString (server c @ '' rebooted more than %!d(MISSING) times''))))
                  else
                    (let w = w\<lparr>printed := printed w @ [''Rebooting '' @ server c @ '' as requested...'']\<rparr>;
                         st' = \<lparr>rs_world = w, rs_env = env, reboot_count = reboot_count st,
                                rebootKey = rkey, rs_output = out @ [nl]\<rparr>
                     in case run_loop n c (''reboot &'' @ [nl] @ ''sleep '' @ fmt_seconds (killTimeout c)) []
                               combinedOutput (initial_state w NewEnvironment) of
                          Panics \<Rightarrow> Panics
                        | Blocks \<Rightarrow> Blocks
                        | OutOfFuel \<Rightarrow> OutOfFuel
                        | Returns (w, _, _, None) \<Rightarrow> run_reboot_failed c env w
                        | Returns (w, _, _, Some e) \<Rightarrow>
                            (case run_loop n c ''echo should-have-disconnected'' [] combinedOutput
                                    (initial_state w NewEnvironment) of
                               Panics \<Rightarrow> Panics
                             | Blocks \<Rightarrow> Blocks
                             | OutOfFuel \<Rightarrow> OutOfFuel
                             | Returns (w, _, _, None) \<Rightarrow> run_reboot_failed c env w
                             | Returns (w, _, _, Some e) \<Rightarrow>
                                 (case reboots w of
                                    [] \<Rightarrow> Blocks
                                  | r # rest \<Rightarrow>
                                      (case dialOnReboot r of
                                         Some e \<Rightarrow> Returns (Return (w\<lparr>reboots := rest\<rparr>) env [] (Some e))
                                       | None \<Rightarrow> Returns (Continue (st'\<lparr>rs_world := w\<lparr>reboots := rest\<rparr>\<rparr>))))))
              | _ \<Rightarrow> Returns (Return w env out err)))"
| "run_loop 0 c script dir mode st = OutOfFuel"
| "run_loop (Suc n) c script dir mode st =
     (case run_step n c script dir mode st of
        Panics \<Rightarrow> Panics
      | Blocks \<Rightarrow> Blocks
      | OutOfFuel \<Rightarrow> OutOfFuel
      | Returns (Return w env out err) \<Rightarrow> Returns (w, env, out, err)
      | Returns (Continue st') \<Rightarrow>
          run_loop n c script dir mode (st'\<lparr>reboot_count := reboot_count st' + 1\<rparr>))"

declare run_step.simps [simp del]

text \<open>
  \<^verbatim>\<open>run\<close>: a \<^verbatim>\<open>nil\<close> environment is replaced by a new one. The result carries the
  caller's environment as the call leaves it.
\<close>

definition run ::
  "nat \<Rightarrow> Client \<Rightarrow> world \<Rightarrow> string \<Rightarrow> string \<Rightarrow> Environment option \<Rightarrow> int
     \<Rightarrow> (world \<times> Environment option \<times> bytes \<times> error option) outcome" where
  "run n c w script dir env mode =
     (case run_loop n c script dir mode
             (initial_state w (case env of None \<Rightarrow> NewEnvironment | Some e \<Rightarrow> e)) of
        Panics \<Rightarrow> Panics
      | Blocks \<Rightarrow> Blocks
      | OutOfFuel \<Rightarrow> OutOfFuel
      | Returns (w', env', out, err) \<Rightarrow>
          Returns (w', (case env of None \<Rightarrow> None | Some e \<Rightarrow> Some env'), out, err))"

subsection \<open>The local executor\<close>

text \<open>\<^verbatim>\<open>exitStatus\<close>: the \<open>ExitError\<close> here is \<^verbatim>\<open>*exec.ExitError\<close> with its wait status.\<close>

fun exitStatus :: "error option \<Rightarrow> int" where
  "exitStatus None = 0"
| "exitStatus (Some (ExitError status msg)) = status"
| "exitStatus (Some e) = 1"

text \<open>
  \<^verbatim>\<open>runScript\<close> from the end of its loop on (lines 733-759): \<open>st\<close> holds the two buffers,
  \<open>err\<close> is what \<^verbatim>\<open>done\<close> delivered.
\<close>

definition runScript_finish :: "supervisor \<Rightarrow> error option \<Rightarrow> bytes \<times> bytes \<times> error option" where
  "runScript_finish st err =
     (let m = (if exitStatus err = 213 then commandExp_FindSubmatch (last_line (outbuf st)) else None)
      in if m \<noteq> None \<and> fst (the m) = ''ERROR'' then ([], [], Some (ErrorString (snd (the m))))
         else if m \<noteq> None \<and> fst (the m) = ''FATAL''
         then ([], [], Some (FatalError (ErrorString (snd (the m)))))
         else (case err of
                 Some e \<Rightarrow>
                   ([], [], Some (if Len (errbuf st) > 0 then outputErr (errbuf st) e
                                  else if Len (outbuf st) > 0 then outputErr (outbuf st) e
                                  else e))
               | None \<Rightarrow> (outbuf st, errbuf st, None)))"

text \<open>
  \<^verbatim>\<open>runScript\<close>, with a non-\<^verbatim>\<open>nil\<close> environment. In trace and combined mode the process
  has \<^verbatim>\<open>outbuf\<close> as its standard error too, so all it writes is a \<open>WriteStdout\<close>. A world
  with no process left never answers \<^verbatim>\<open>cmd.Start\<close>.
\<close>

definition runScript ::
  "world \<Rightarrow> int \<Rightarrow> string \<Rightarrow> string \<Rightarrow> Environment \<Rightarrow> int \<Rightarrow> int
     \<Rightarrow> (world \<times> bytes \<times> bytes \<times> error option) outcome" where
  "runScript w mode script dir env warn kill =
     (let script = TrimSpace script
      in if length script = 0 then Returns (w, [], [], None)
         else
           (let script = script @ [nl];
                buf = runScript_script script env mode
            in if \<not> (mode = traceOutput \<or> mode = combinedOutput \<or> mode = splitOutput) then Panics
               else
                 (case processes w of
                    [] \<Rightarrow> Blocks
                  | p # rest \<Rightarrow>
                      (let w = w\<lparr>processes := rest, sent := sent w @ [(''/bin/bash -eu -'', buf)]\<rparr>
                       in case cmd_Start_err p of
                            Some e \<Rightarrow>
                              Returns (w, [], [], Some (ErrorString (''cannot start local command: '' @ Error e)))
                          | None \<Rightarrow>
                              (case runScript_timeouts warn kill of
                                 Returns (warn, kill) \<Rightarrow>
                                   (case runScript_loop (new_supervisor w) (cmd_events p) of
                                      (st, Returns err) \<Rightarrow>
                                        (case runScript_finish st err of
                                           (out, errout, e) \<Rightarrow> Returns (w\<lparr>printed := log st\<rparr>, out, errout, e))
                                    | (st, Panics) \<Rightarrow> Panics
                                    | (st, Blocks) \<Rightarrow> Blocks
                                    | (st, OutOfFuel) \<Rightarrow> OutOfFuel)
                               | Panics \<Rightarrow> Panics
                               | Blocks \<Rightarrow> Blocks
                               | OutOfFuel \<Rightarrow> OutOfFuel)))))"

text \<open>
  The report as the specification words it: standard error alone when the view of
  standard output is empty or the view of standard error is a prefix of it, otherwise
  the two with an empty line between them.
\<close>

definition spec_warn_output :: "bytes \<Rightarrow> bytes \<Rightarrow> bytes" where
  "spec_warn_output output errput =
     (if output = [] \<or> prefix errput output then errput
      else (output @ [nl, nl]) @ errput)"

subsection \<open>A client and sessions to run the model on\<close>

text \<open>
  The client as \<^verbatim>\<open>Dial\<close> leaves it (\<^verbatim>\<open>SetWarnTimeout(0)\<close>, then \<^verbatim>\<open>SetKillTimeout(0)\<close>), a
  session on which every call succeeds and the given events follow the start of the
  command, and a session whose command ends because the link went down.
\<close>

definition dialled :: Client where
  "dialled = \<lparr>server = ''srv'', user = ''root'', warnTimeout = 5 * Minute,
               killTimeout = 15 * Minute - Second\<rparr>"

definition ok_session :: "event list \<Rightarrow> session" where
  "ok_session evs = \<lparr>NewSession_err = None, StdinPipe_err = None, GetSize_err = None,
     RequestPty_err = None, MakeRaw_err = None, Run_err = None, Start_err = None,
     events = evs, errch = None\<rparr>"

definition lost_session :: session where
  "lost_session =
     ok_session [Done (Some (ErrorString ''wait: remote command exited without exit status or exit signal''))]"

definition bash_cmd :: string where
  \<open>bash_cmd = ''/bin/bash -eu - 2>&1''\<close>


text \<open>
  A session whose script asks for a reboot without a key, and a world in which \<open>n\<close>
  attempts in a row do so, each reboot going through: the reboot command loses its link,
  so does the \<^verbatim>\<open>echo\<close> after it, and \<^verbatim>\<open>dialOnReboot\<close> reconnects.
\<close>

definition reboot_session :: session where
  "reboot_session =
     ok_session [WriteStdout (''<REBOOT>'' @ [nl]),
                 Done (Some (ExitError 213 ''Process exited with status 213''))]"

definition rebooting_world :: "nat \<Rightarrow> session list \<Rightarrow> world" where
  "rebooting_world n rest =
     \<lparr>sessions = concat (replicate n [reboot_session, lost_session, lost_session]) @ rest,
      reboots = replicate n \<lparr>timedout = False, dialOnReboot = None\<rparr>,
      processes = [], sent = [], printed = []\<rparr>"

section \<open>Properties\<close>

lemma since_scan_in_range:
  "i < int (length data) \<Longrightarrow> since_scan data i \<noteq> None"
  by (induction data i rule: since_scan.induct) (subst since_scan.simps, simp)

lemma since_scan_found:
  "since_scan data i = Some (Some j) \<Longrightarrow>
     1 < j \<and> j \<le> i \<and> data ! nat j = nl \<and> (\<forall>k. j < k \<and> k \<le> i \<longrightarrow> data ! nat k \<noteq> nl)"
proof (induction data i rule: since_scan.induct)
  case (1 data i)
  show ?case
  proof (cases "i > 1 \<and> i < int (length data) \<and> data ! nat i \<noteq> nl")
    case True
    then have "since_scan data (i - 1) = Some (Some j)"
      using "1.prems" by (subst (asm) since_scan.simps) simp
    with True "1.IH" have IH: "1 < j \<and> j \<le> i - 1 \<and> data ! nat j = nl \<and>
        (\<forall>k. j < k \<and> k \<le> i - 1 \<longrightarrow> data ! nat k \<noteq> nl)"
      by simp
    have "data ! nat k \<noteq> nl" if "j < k" "k \<le> i" for k
    proof (cases "k = i")
      case True
      then show ?thesis using \<open>1 < i \<and> i < int (length data) \<and> data ! nat i \<noteq> nl\<close> by simp
    next
      case False
      with that IH show ?thesis by simp
    qed
    with IH show ?thesis by simp
  next
    case False
    with "1.prems" show ?thesis
      by (subst (asm) since_scan.simps) (auto split: if_splits)
  qed
qed

lemma since_scan_not_found:
  "since_scan data i = Some None \<Longrightarrow> (\<forall>k. 1 < k \<and> k \<le> i \<longrightarrow> data ! nat k \<noteq> nl)"
proof (induction data i rule: since_scan.induct)
  case (1 data i)
  show ?case
  proof (cases "i > 1")
    case True
    with "1.prems" have a: "i < int (length data)" "data ! nat i \<noteq> nl" "since_scan data (i - 1) = Some None"
      by (subst (asm) since_scan.simps, simp split: if_splits)+
    with True "1.IH" have IH: "\<forall>k. 1 < k \<and> k \<le> i - 1 \<longrightarrow> data ! nat k \<noteq> nl"
      by simp
    show ?thesis
    proof (intro allI impI)
      fix k assume "1 < k \<and> k \<le> i"
      then show "data ! nat k \<noteq> nl"
        using IH a(2) by (cases "k = i") auto
    qed
  next
    case False
    then show ?thesis by auto
  qed
qed

text \<open>
  Claim C2, as the code has it. For \<open>0 \<le> offset \<le> Len()\<close>, \<^verbatim>\<open>Since(offset)\<close> returns the
  buffer's length as the new offset and the white-space-trimmed view, where the view before
  trimming is \<^verbatim>\<open>"(...)"\<close> followed by the buffer from index \<open>i\<close> on, \<open>i\<close> being the last
  newline among the indices \<open>2 .. offset - 1\<close>, or the whole buffer when no index in
  \<open>2 .. offset - 1\<close> holds a newline: the scan stops above index 1, so a newline at index
  0 or 1 is never found.
\<close>

theorem Since_view:
  assumes "0 \<le> offset" and "offset \<le> Len buf"
  shows "\<exists>view. Since buf offset = Some (TrimSpace view, Len buf) \<and>
           ((\<exists>i. 2 \<le> i \<and> i \<le> offset - 1 \<and> buf ! nat i = nl \<and>
                 (\<forall>k. i < k \<and> k \<le> offset - 1 \<longrightarrow> buf ! nat k \<noteq> nl) \<and>
                 view = unchangedMarker @ drop (nat i) buf)
            \<or> ((\<forall>k. 2 \<le> k \<and> k \<le> offset - 1 \<longrightarrow> buf ! nat k \<noteq> nl) \<and> view = buf))"
proof -
  from assms have "offset - 1 < int (length buf)"
    by (simp add: Len_def)
  then have "since_scan buf (offset - 1) \<noteq> None"
    by (rule since_scan_in_range)
  then obtain r where r: "since_scan buf (offset - 1) = Some r"
    by auto
  show ?thesis
  proof (cases r)
    case None
    with r since_scan_not_found [of buf "offset - 1"]
    have "\<forall>k. 2 \<le> k \<and> k \<le> offset - 1 \<longrightarrow> buf ! nat k \<noteq> nl"
      by auto
    with r None show ?thesis
      by (intro exI [of _ buf]) (simp add: Since_def)
  next
    case (Some j)
    with r since_scan_found [of buf "offset - 1" j]
    have "2 \<le> j \<and> j \<le> offset - 1 \<and> buf ! nat j = nl \<and>
          (\<forall>k. j < k \<and> k \<le> offset - 1 \<longrightarrow> buf ! nat k \<noteq> nl)"
      by auto
    with r Some show ?thesis
      by (intro exI [of _ "unchangedMarker @ drop (nat j) buf"]) (auto simp: Since_def)
  qed
qed

theorem Since_view_witness:
  "(0::int) \<le> 6 \<and> 6 \<le> Len (''ab'' @ [nl] @ ''cd'' @ [nl] @ ''ef '') \<and>
   (\<exists>view. Since (''ab'' @ [nl] @ ''cd'' @ [nl] @ ''ef '') 6 =
       Some (TrimSpace view, Len (''ab'' @ [nl] @ ''cd'' @ [nl] @ ''ef '')) \<and>
     ((\<exists>i. 2 \<le> i \<and> i \<le> 6 - 1 \<and> (''ab'' @ [nl] @ ''cd'' @ [nl] @ ''ef '') ! nat i = nl \<and>
           (\<forall>k. i < k \<and> k \<le> 6 - 1 \<longrightarrow> (''ab'' @ [nl] @ ''cd'' @ [nl] @ ''ef '') ! nat k \<noteq> nl) \<and>
           view = unchangedMarker @ drop (nat i) (''ab'' @ [nl] @ ''cd'' @ [nl] @ ''ef ''))
      \<or> ((\<forall>k. 2 \<le> k \<and> k \<le> 6 - 1 \<longrightarrow> (''ab'' @ [nl] @ ''cd'' @ [nl] @ ''ef '') ! nat k \<noteq> nl) \<and>
         view = ''ab'' @ [nl] @ ''cd'' @ [nl] @ ''ef '')))"
proof -
  have h: "(0::int) \<le> 6" "6 \<le> Len (''ab'' @ [nl] @ ''cd'' @ [nl] @ ''ef '')"
    by (simp_all add: Len_def)
  from h Since_view [OF h] show ?thesis
    by blast
qed

text \<open>
  Claim C2 as stated fails: in the buffer \<^verbatim>\<open>"a\nb"\<close> with offset 2 the last newline at an
  index \<open>\<le> offset - 1\<close> is at index 1, so the stated view is \<^verbatim>\<open>"(...)\nb"\<close>; the code
  returns the whole buffer.
\<close>

theorem Since_newline_below_two_counterexample:
  "Since (''a'' @ [nl] @ ''b'') 2 = Some (''a'' @ [nl] @ ''b'', 3) \<and>
   spec_Since (''a'' @ [nl] @ ''b'') 2 = (''(...)'' @ [nl] @ ''b'', 3)"
  by code_simp

lemma HasPrefix_prefix: "HasPrefix s p \<longleftrightarrow> prefix p s"
  unfolding HasPrefix_def
  by (metis append_eq_conv_conj prefix_def)

lemma Since_total:
  assumes "0 \<le> offset" and "offset \<le> Len buf"
  shows "\<exists>view. Since buf offset = Some (view, Len buf)"
proof -
  from assms have "offset - 1 < int (length buf)"
    by (simp add: Len_def)
  then have "since_scan buf (offset - 1) \<noteq> None"
    by (rule since_scan_in_range)
  then show ?thesis
    by (auto simp: Since_def split: option.splits)
qed

text \<open>
  Claim C3, as the code has it. On a warn tick with both sinks \<^verbatim>\<open>safeBuffer\<close>s (and the
  reporter's offsets within the buffers, as the loop keeps them), the report is the view
  of standard error alone when the view of standard output is empty or is a prefix of the
  view of standard error (\<^verbatim>\<open>bytes.HasPrefix(errput, output)\<close>); otherwise, when the view of
  standard error is not empty, it is the view of standard output, an empty line and the
  view of standard error; with an empty view of standard error it is the view of standard
  output. \<^verbatim>\<open>runCommand\<close> and \<^verbatim>\<open>runScript\<close> print the same report.
\<close>

theorem warn_tick_report:
  assumes "0 \<le> lastOut st" and "lastOut st \<le> Len (outbuf st)"
      and "0 \<le> lastErr st" and "lastErr st \<le> Len (errbuf st)"
  shows "\<exists>output errput report.
           Since (outbuf st) (lastOut st) = Some (output, Len (outbuf st)) \<and>
           Since (errbuf st) (lastErr st) = Some (errput, Len (errbuf st)) \<and>
           report = (if output = [] \<or> prefix output errput then errput
                     else if errput \<noteq> [] then output @ [nl, nl] @ errput
                     else output) \<and>
           runCommand_warn c True True st =
             Some (printf (warn_message (server c) report)
                     (st\<lparr>lastOut := Len (outbuf st), lastErr := Len (errbuf st)\<rparr>)) \<and>
           runScript_warn st =
             Some (printf (warn_message ''local script'' report)
                     (st\<lparr>lastOut := Len (outbuf st), lastErr := Len (errbuf st)\<rparr>))"
proof -
  from Since_total [OF assms(1,2)] obtain ov
    where out: "Since (outbuf st) (lastOut st) = Some (ov, Len (outbuf st))" by blast
  from Since_total [OF assms(3,4)] obtain ev
    where err: "Since (errbuf st) (lastErr st) = Some (ev, Len (errbuf st))" by blast
  have rep: "warn_output ov ev =
      (if ov = [] \<or> prefix ov ev then ev
       else if ev \<noteq> [] then ov @ [nl, nl] @ ev
       else ov)"
    by (simp add: warn_output_def HasPrefix_prefix)
  from out err rep show ?thesis
    by (simp add: runCommand_warn_def runScript_warn_def)
qed

text \<open>
  Claim C3 as stated fails: with \<^verbatim>\<open>ab\<close> on standard output and \<^verbatim>\<open>a\<close> on standard error,
  the view of standard error is a prefix of the view of standard output, for which the
  claim reports \<^verbatim>\<open>a\<close> alone; the code reports both.
\<close>

theorem warn_report_prefix_counterexample:
  "Since ''ab'' 0 = Some (''ab'', 2) \<and> Since ''a'' 0 = Some (''a'', 1) \<and>
   spec_warn_output ''ab'' ''a'' = ''a'' \<and>
   runScript_warn \<lparr>outbuf = ''ab'', errbuf = ''a'', lastOut = 0, lastErr = 0, killed = False, log = []\<rparr> =
     Some \<lparr>outbuf = ''ab'', errbuf = ''a'', lastOut = 2, lastErr = 1, killed = False,
            log = [warn_message ''local script'' (''ab'' @ [nl, nl] @ ''a'')]\<rparr>"
  by code_simp

theorem warn_tick_report_witness:
  "\<exists>ov ev report.
     Since ''ab'' 0 = Some (ov, 2) \<and> Since ''a'' 0 = Some (ev, 1) \<and>
     report = (if ov = [] \<or> prefix ov ev then ev
               else if ev \<noteq> [] then ov @ [nl, nl] @ ev else ov) \<and>
     runCommand_warn \<lparr>server = ''srv'', user = ''root'', warnTimeout = 1, killTimeout = 1\<rparr> True True
       \<lparr>outbuf = ''ab'', errbuf = ''a'', lastOut = 0, lastErr = 0, killed = False, log = []\<rparr> =
       Some (printf (warn_message ''srv'' report)
         \<lparr>outbuf = ''ab'', errbuf = ''a'', lastOut = 2, lastErr = 1, killed = False, log = []\<rparr>) \<and>
     runScript_warn \<lparr>outbuf = ''ab'', errbuf = ''a'', lastOut = 0, lastErr = 0, killed = False, log = []\<rparr> =
       Some (printf (warn_message ''local script'' report)
         \<lparr>outbuf = ''ab'', errbuf = ''a'', lastOut = 2, lastErr = 1, killed = False, log = []\<rparr>)"
  using warn_tick_report [of "\<lparr>outbuf = ''ab'', errbuf = ''a'', lastOut = 0, lastErr = 0, killed = False, log = []\<rparr>"
      "\<lparr>server = ''srv'', user = ''root'', warnTimeout = 1, killTimeout = 1\<rparr>"]
  by (simp add: Len_def)

lemma runCommand_loop_append:
  "runCommand_loop c so se st pre = (st1, Blocks) \<Longrightarrow>
   runCommand_loop c so se st (pre @ evs) = runCommand_loop c so se st1 evs"
proof (induction c so se st pre rule: runCommand_loop.induct)
  case (6 c so se st evs')
  then show ?case by (cases "runCommand_warn c so se st") auto
qed auto

lemma runScript_loop_append:
  "runScript_loop st pre = (st1, Blocks) \<Longrightarrow>
   runScript_loop st (pre @ evs) = runScript_loop st1 evs"
proof (induction st pre rule: runScript_loop.induct)
  case (6 st evs')
  then show ?case by (cases "runScript_warn st") auto
qed auto

text \<open>
  Claim C4, as the code has it. When the kill timer fires while the command is still
  awaited, \<^verbatim>\<open>runCommand\<close> signals \<^verbatim>\<open>SIGKILL\<close>, appends \<^verbatim>\<open>"\n<kill-timeout reached>"\<close> to the
  standard output sink if it was given one, else to the standard error sink if it was given
  one, and returns the kill-timeout error at once, whatever follows. The loop of
  \<^verbatim>\<open>runScript\<close> kills the process and appends the marker to its standard error buffer when
  that holds bytes, and to its standard output buffer otherwise.
\<close>

theorem kill_timeout:
  assumes "runCommand_loop c so se st pre = (st1, Blocks)"
      and "runScript_loop lst pre = (lst1, Blocks)"
  shows "runCommand_loop c so se st (pre @ Kill # rest) =
           (st1\<lparr>killed := True,
                outbuf := (if so then outbuf st1 @ kill_marker else outbuf st1),
                errbuf := (if \<not> so \<and> se then errbuf st1 @ kill_marker else errbuf st1)\<rparr>,
            Returns (Some (ErrorString ''kill-timeout reached''))) \<and>
         fst (runScript_loop lst (pre @ [Kill])) =
           lst1\<lparr>killed := True,
                 outbuf := (if errbuf lst1 = [] then outbuf lst1 @ kill_marker else outbuf lst1),
                 errbuf := (if errbuf lst1 = [] then errbuf lst1 else errbuf lst1 @ kill_marker)\<rparr>"
  using runCommand_loop_append [OF assms(1), of "Kill # rest"]
        runScript_loop_append [OF assms(2), of "[Kill]"]
  by (simp add: runCommand_kill_def runScript_kill_def Write_def Len_def)

theorem kill_timeout_witness:
  "runCommand_loop \<lparr>server = ''srv'', user = ''root'', warnTimeout = 1, killTimeout = 1\<rparr> False True
     \<lparr>outbuf = [], errbuf = [], lastOut = 0, lastErr = 0, killed = False, log = []\<rparr>
     ([WriteStderr ''e''] @ Kill # [Done None]) =
     (\<lparr>outbuf = [], errbuf = ''e'' @ kill_marker, lastOut = 0, lastErr = 0, killed = True, log = []\<rparr>,
      Returns (Some (ErrorString ''kill-timeout reached''))) \<and>
   fst (runScript_loop \<lparr>outbuf = [], errbuf = [], lastOut = 0, lastErr = 0, killed = False, log = []\<rparr>
     ([WriteStderr ''e''] @ [Kill])) =
     \<lparr>outbuf = [], errbuf = ''e'' @ kill_marker, lastOut = 0, lastErr = 0, killed = True, log = []\<rparr>"
proof -
  have a: "runCommand_loop \<lparr>server = ''srv'', user = ''root'', warnTimeout = 1, killTimeout = 1\<rparr> False True
      \<lparr>outbuf = [], errbuf = [], lastOut = 0, lastErr = 0, killed = False, log = []\<rparr> [WriteStderr ''e''] =
      (\<lparr>outbuf = [], errbuf = ''e'', lastOut = 0, lastErr = 0, killed = False, log = []\<rparr>, Blocks)"
    by (simp add: Write_def)
  have b: "runScript_loop \<lparr>outbuf = [], errbuf = [], lastOut = 0, lastErr = 0, killed = False, log = []\<rparr>
      [WriteStderr ''e''] =
      (\<lparr>outbuf = [], errbuf = ''e'', lastOut = 0, lastErr = 0, killed = False, log = []\<rparr>, Blocks)"
    by (simp add: Write_def)
  from kill_timeout [OF a b, of "[Done None]"] show ?thesis
    by simp
qed

text \<open>
  Claim C4 as stated fails for the local executor: with output on both streams, the
  marker goes to the standard error buffer although the standard output buffer is there,
  and the loop does not leave on the kill; it returns what \<^verbatim>\<open>done\<close> delivers later.
\<close>

theorem local_kill_counterexample:
  "runScript_loop \<lparr>outbuf = [], errbuf = [], lastOut = 0, lastErr = 0, killed = False, log = []\<rparr>
     [WriteStdout ''o'', WriteStderr ''e'', Kill] =
     (\<lparr>outbuf = ''o'', errbuf = ''e'' @ kill_marker, lastOut = 0, lastErr = 0, killed = True, log = []\<rparr>,
      Blocks) \<and>
   runScript_loop \<lparr>outbuf = [], errbuf = [], lastOut = 0, lastErr = 0, killed = False, log = []\<rparr>
     [WriteStdout ''o'', WriteStderr ''e'', Kill, Done (Some (ExitError (- 1) ''signal: killed''))] =
     (\<lparr>outbuf = ''o'', errbuf = ''e'' @ kill_marker, lastOut = 0, lastErr = 0, killed = True, log = []\<rparr>,
      Returns (Some (ExitError (- 1) ''signal: killed'')))"
  by (simp add: runScript_kill_def Write_def Len_def)

lemma smod_eq_0_iff_dvd: "(a::int) smod b = 0 \<longleftrightarrow> b dvd a"
proof -
  have "a smod b = 0 \<longleftrightarrow> \<bar>a\<bar> mod \<bar>b\<bar> = 0"
    by (auto simp: smod_int_alt_def sgn_if)
  also have "\<dots> \<longleftrightarrow> b dvd a"
    by (simp add: dvd_eq_mod_eq_0 [symmetric])
  finally show ?thesis .
qed

lemma wrap64_id: "is_int64 x \<Longrightarrow> wrap64 x = x"
  unfolding is_int64_def wrap64_def by (simp add: mod_pos_pos_trivial)

lemma wrap64_minus_Second:
  assumes "is_int64 k"
  shows "wrap64 (k - Second) = (if Second - 2 ^ 63 \<le> k then k - Second else k - Second + 2 ^ 64)"
proof (cases "Second - 2 ^ 63 \<le> k")
  case True
  with assms have "is_int64 (k - Second)"
    by (simp add: is_int64_def Second_def)
  with True show ?thesis
    by (simp add: wrap64_id)
next
  case False
  with assms have r: "0 \<le> k - Second + 2 ^ 63 + 2 ^ 64" "k - Second + 2 ^ 63 + 2 ^ 64 < 2 ^ 64"
    by (simp_all add: is_int64_def Second_def)
  have "(k - Second + 2 ^ 63) mod 2 ^ 64 = (k - Second + 2 ^ 63 + 2 ^ 64) mod 2 ^ 64"
    by (simp only: mod_add_self2)
  also have "\<dots> = k - Second + 2 ^ 63 + 2 ^ 64"
    using r by (rule mod_pos_pos_trivial)
  finally show ?thesis
    using False by (simp add: wrap64_def)
qed

text \<open>
  Claim C5, as the code has it. The setters and \<^verbatim>\<open>runScript\<close> map 0 to the default
  (5 min, 15 min) and -1 to 8760 h and store every other value as it is given. Then
  \<^verbatim>\<open>killTimeout\<close> (the value asked for after this mapping; for \<^verbatim>\<open>SetWarnTimeout\<close> the value
  stored, which is not mapped) is decreased by exactly one second whenever it is an exact
  multiple of \<^verbatim>\<open>warnTimeout\<close>, and left as it is otherwise; the subtraction is that of 64
  bits, so below \<open>-2^63 + 1 s\<close> it wraps around. \<^verbatim>\<open>warnTimeout\<close> is at least a second when
  the value asked for is 0, -1 or at least a second (\<^verbatim>\<open>SetKillTimeout\<close> leaves it as it
  is). \<^verbatim>\<open>killTimeout\<close> ends positive when it was more than a second before the adjustment:
  asked for as 0, -1 or more than a second, or for \<^verbatim>\<open>SetWarnTimeout\<close> stored as more than a
  second. \<^verbatim>\<open>SetKillTimeout\<close> divides by a \<^verbatim>\<open>warnTimeout\<close> it does not set, and panics when
  that is 0.
\<close>

theorem timeouts_normalised:
  assumes "is_int64 t" and "is_int64 t'" and "is_int64 (killTimeout c)"
  shows
    "(\<exists>c'. SetWarnTimeout c t = Returns c' \<and>
        warnTimeout c' = (if t = 0 then defaultWarnTimeout else if t = - 1 then maxTimeout else t) \<and>
        killTimeout c' =
          (if warnTimeout c' dvd killTimeout c
           then (if Second - 2 ^ 63 \<le> killTimeout c then killTimeout c - Second
                 else killTimeout c - Second + 2 ^ 64)
           else killTimeout c) \<and>
        (t = 0 \<or> t = - 1 \<or> Second \<le> t \<longrightarrow> Second \<le> warnTimeout c') \<and>
        (Second < killTimeout c \<longrightarrow> 0 < killTimeout c')) \<and>
     (warnTimeout c = 0 \<longrightarrow> SetKillTimeout c t' = Panics) \<and>
     (warnTimeout c \<noteq> 0 \<longrightarrow>
       (\<exists>c' k. SetKillTimeout c t' = Returns c' \<and> warnTimeout c' = warnTimeout c \<and>
          k = (if t' = 0 then defaultKillTimeout else if t' = - 1 then maxTimeout else t') \<and>
          killTimeout c' =
            (if warnTimeout c dvd k
             then (if Second - 2 ^ 63 \<le> k then k - Second else k - Second + 2 ^ 64)
             else k) \<and>
          (t' = 0 \<or> t' = - 1 \<or> Second < t' \<longrightarrow> 0 < killTimeout c'))) \<and>
     (\<exists>w k0 k. runScript_timeouts t t' = Returns (w, k) \<and>
        w = (if t = 0 then defaultWarnTimeout else if t = - 1 then maxTimeout else t) \<and>
        k0 = (if t' = 0 then defaultKillTimeout else if t' = - 1 then maxTimeout else t') \<and>
        k = (if w dvd k0
             then (if Second - 2 ^ 63 \<le> k0 then k0 - Second else k0 - Second + 2 ^ 64)
             else k0) \<and>
        (t = 0 \<or> t = - 1 \<or> Second \<le> t \<longrightarrow> Second \<le> w) \<and>
        (t' = 0 \<or> t' = - 1 \<or> Second < t' \<longrightarrow> 0 < k))"
proof -
  have vals: "Second = 1000000000" "defaultWarnTimeout = 300000000000"
    "defaultKillTimeout = 900000000000" "maxTimeout = 31536000000000000"
    by (simp_all add: Second_def defaultWarnTimeout_def defaultKillTimeout_def maxTimeout_def
        Minute_def Hour_def)
  define w where "w = (if t = 0 then defaultWarnTimeout else if t = - 1 then maxTimeout else t)"
  define k0 where "k0 = (if t' = 0 then defaultKillTimeout else if t' = - 1 then maxTimeout else t')"
  define dec where "dec = (\<lambda>k::int. if Second - 2 ^ 63 \<le> k then k - Second else k - Second + 2 ^ 64)"
  have w0: "w \<noteq> 0"
    by (simp add: w_def vals)
  have wge: "Second \<le> w" if "t = 0 \<or> t = - 1 \<or> Second \<le> t"
    using that by (auto simp: w_def vals)
  have k0i: "is_int64 k0"
    using assms(2) by (auto simp: k0_def is_int64_def vals)
  have k0g: "Second < k0" if "t' = 0 \<or> t' = - 1 \<or> Second < t'"
    using that by (auto simp: k0_def vals)
  have wr: "wrap64 (k - Second) = dec k" if "is_int64 k" for k
    using wrap64_minus_Second [OF that] by (simp add: dec_def)
  have pos: "0 < (if d dvd k then dec k else k)" if "Second < k" for d k
    using that by (simp add: dec_def vals)
  have A: "SetWarnTimeout c t =
      Returns (c\<lparr>warnTimeout := w, killTimeout := (if w dvd killTimeout c then dec (killTimeout c)
                                                     else killTimeout c)\<rparr>)"
    using w0 wr [OF assms(3)]
    by (simp add: SetWarnTimeout_def Let_def smod_eq_0_iff_dvd w_def [symmetric])
  have B0: "SetKillTimeout c t' = Panics" if "warnTimeout c = 0"
    using that by (simp add: SetKillTimeout_def Let_def)
  have B: "SetKillTimeout c t' =
      Returns (c\<lparr>killTimeout := (if warnTimeout c dvd k0 then dec k0 else k0)\<rparr>)"
    if "warnTimeout c \<noteq> 0"
    using that wr [OF k0i]
    by (simp add: SetKillTimeout_def Let_def smod_eq_0_iff_dvd k0_def [symmetric])
  have C: "runScript_timeouts t t' = Returns (w, if w dvd k0 then dec k0 else k0)"
    using w0 wr [OF k0i]
    by (simp add: runScript_timeouts_def Let_def smod_eq_0_iff_dvd w_def [symmetric] k0_def [symmetric])
  have 1: "\<exists>c'. SetWarnTimeout c t = Returns c' \<and> warnTimeout c' = w \<and>
        killTimeout c' = (if warnTimeout c' dvd killTimeout c then dec (killTimeout c) else killTimeout c) \<and>
        (t = 0 \<or> t = - 1 \<or> Second \<le> t \<longrightarrow> Second \<le> warnTimeout c') \<and>
        (Second < killTimeout c \<longrightarrow> 0 < killTimeout c')"
    using A wge pos [of "killTimeout c" w] by simp
  have 2: "warnTimeout c \<noteq> 0 \<longrightarrow>
       (\<exists>c' k. SetKillTimeout c t' = Returns c' \<and> warnTimeout c' = warnTimeout c \<and> k = k0 \<and>
          killTimeout c' = (if warnTimeout c dvd k then dec k else k) \<and>
          (t' = 0 \<or> t' = - 1 \<or> Second < t' \<longrightarrow> 0 < killTimeout c'))"
    using B k0g pos [of k0 "warnTimeout c"] by simp
  have 3: "\<exists>w' k0' k. runScript_timeouts t t' = Returns (w', k) \<and> w' = w \<and> k0' = k0 \<and>
        k = (if w' dvd k0' then dec k0' else k0') \<and>
        (t = 0 \<or> t = - 1 \<or> Second \<le> t \<longrightarrow> Second \<le> w') \<and>
        (t' = 0 \<or> t' = - 1 \<or> Second < t' \<longrightarrow> 0 < k)"
    using C wge k0g pos [of k0 w] by simp
  from 1 B0 2 3 show ?thesis
    unfolding w_def k0_def dec_def by blast
qed


theorem timeouts_normalised_witness:
  "(\<exists>c'. SetWarnTimeout \<lparr>server = ''srv'', user = ''root'', warnTimeout = 5 * Minute, killTimeout = 15 * Minute\<rparr>
           (3 * Minute) = Returns c' \<and>
         warnTimeout c' = 3 * Minute \<and> killTimeout c' = 15 * Minute - Second \<and>
         Second \<le> warnTimeout c' \<and> 0 < killTimeout c') \<and>
   (\<exists>c'. SetKillTimeout \<lparr>server = ''srv'', user = ''root'', warnTimeout = 5 * Minute, killTimeout = 15 * Minute\<rparr>
           (10 * Minute) = Returns c' \<and>
         warnTimeout c' = 5 * Minute \<and> killTimeout c' = 10 * Minute - Second \<and> 0 < killTimeout c') \<and>
   (\<exists>w k. runScript_timeouts (3 * Minute) (10 * Minute) = Returns (w, k) \<and>
         w = 3 * Minute \<and> k = 10 * Minute \<and> Second \<le> w \<and> 0 < k) \<and>
   (\<exists>c'. SetWarnTimeout \<lparr>server = ''srv'', user = ''root'', warnTimeout = 0, killTimeout = 0\<rparr> 0 =
           Returns c' \<and>
         warnTimeout c' = 5 * Minute \<and> killTimeout c' = - Second \<and> Second \<le> warnTimeout c') \<and>
   SetKillTimeout \<lparr>server = ''srv'', user = ''root'', warnTimeout = 0, killTimeout = 0\<rparr> 0 = Panics"
proof -
  let ?c = "\<lparr>server = ''srv'', user = ''root'', warnTimeout = 5 * Minute, killTimeout = 15 * Minute\<rparr>"
  let ?z = "\<lparr>server = ''srv'', user = ''root'', warnTimeout = 0, killTimeout = 0\<rparr>"
  have h: "is_int64 (3 * Minute)" "is_int64 (10 * Minute)" "is_int64 (killTimeout ?c)"
    by (simp_all add: is_int64_def Minute_def Second_def)
  have z: "is_int64 0" "is_int64 0" "is_int64 (killTimeout ?z)"
    by (simp_all add: is_int64_def)
  have vals: "Second = 1000000000" "Minute = 60000000000" "defaultWarnTimeout = 300000000000"
    by (simp_all add: Second_def Minute_def defaultWarnTimeout_def)
  from timeouts_normalised [OF h]
  have a: "(\<exists>c'. SetWarnTimeout ?c (3 * Minute) = Returns c' \<and>
         warnTimeout c' = 3 * Minute \<and> killTimeout c' = 15 * Minute - Second \<and>
         Second \<le> warnTimeout c' \<and> 0 < killTimeout c')"
    and b: "(\<exists>c'. SetKillTimeout ?c (10 * Minute) = Returns c' \<and>
         warnTimeout c' = 5 * Minute \<and> killTimeout c' = 10 * Minute - Second \<and> 0 < killTimeout c')"
    and c: "(\<exists>w k. runScript_timeouts (3 * Minute) (10 * Minute) = Returns (w, k) \<and>
         w = 3 * Minute \<and> k = 10 * Minute \<and> Second \<le> w \<and> 0 < k)"
    by (auto simp: vals)
  from timeouts_normalised [OF z]
  have d: "(\<exists>c'. SetWarnTimeout ?z 0 = Returns c' \<and>
         warnTimeout c' = 5 * Minute \<and> killTimeout c' = - Second \<and> Second \<le> warnTimeout c')"
    and e: "SetKillTimeout ?z 0 = Panics"
    by (auto simp: vals)
  from a b c d e show ?thesis
    by blast
qed

text \<open>
  Claim C5 as stated fails: timeouts under a second are stored as given. With the
  50 ms and 150 ms of the specification's own kill-timeout scenario, \<^verbatim>\<open>warnTimeout\<close> is
  50 ms and \<^verbatim>\<open>killTimeout\<close>, a multiple of it, becomes -850 ms. And a \<^verbatim>\<open>killTimeout\<close> of
  -9223372036 s, a multiple of a \<^verbatim>\<open>warnTimeout\<close> of 1 s, is not decreased: the
  subtraction wraps around to a positive value.
\<close>

theorem timeouts_unclamped_counterexample:
  "runScript_timeouts (50 * Millisecond) (150 * Millisecond) =
     Returns (50 * Millisecond, - (850 * Millisecond)) \<and>
   SetWarnTimeout \<lparr>server = ''srv'', user = ''root'', warnTimeout = 5 * Minute, killTimeout = 15 * Minute - Second\<rparr>
       (50 * Millisecond) =
     Returns \<lparr>server = ''srv'', user = ''root'', warnTimeout = 50 * Millisecond, killTimeout = 15 * Minute - 2 * Second\<rparr> \<and>
   SetKillTimeout \<lparr>server = ''srv'', user = ''root'', warnTimeout = 50 * Millisecond, killTimeout = 15 * Minute - 2 * Second\<rparr>
       (150 * Millisecond) =
     Returns \<lparr>server = ''srv'', user = ''root'', warnTimeout = 50 * Millisecond, killTimeout = - (850 * Millisecond)\<rparr> \<and>
   50 * Millisecond < Second \<and> - (850 * Millisecond) < 0 \<and>
   SetKillTimeout \<lparr>server = ''srv'', user = ''root'', warnTimeout = Second, killTimeout = 15 * Minute\<rparr>
       (- 9223372036 * Second) =
     Returns \<lparr>server = ''srv'', user = ''root'', warnTimeout = Second,
              killTimeout = - 9223372036 * Second - Second + 2 ^ 64\<rparr> \<and>
   is_int64 (- 9223372036 * Second) \<and> - 9223372036 * Second < - 9223372036 * Second - Second + 2 ^ 64"
  by (simp add: runScript_timeouts_def SetWarnTimeout_def SetKillTimeout_def Millisecond_def Second_def
      Minute_def wrap64_def smod_int_alt_def is_int64_def)

lemma leading_space_rune:
  "r \<in> set space_runes \<Longrightarrow> r \<noteq> [] \<and> leading_space (r @ x) = length r"
  unfolding space_runes_def leading_space_def
  apply (simp only: list.set insert_iff empty_iff)
  apply (elim disjE)
  apply simp_all
  done

lemma TrimLeftSpace_runes:
  "set rs \<subseteq> set space_runes \<Longrightarrow> TrimLeftSpace (concat rs) = []"
proof (induction rs)
  case Nil
  then show ?case by simp
next
  case (Cons r rs)
  then have r: "r \<in> set space_runes" and IH: "TrimLeftSpace (concat rs) = []"
    by simp_all
  from leading_space_rune [OF r, of "concat rs"] obtain ch cs
    where rc: "r = ch # cs" and w: "leading_space (r @ concat rs) = length r"
    by (cases r) auto
  have "TrimLeftSpace (concat (r # rs)) = TrimLeftSpace ((ch # cs) @ concat rs)"
    by (simp add: rc)
  also have "\<dots> = TrimLeftSpace (drop (length r - 1) (cs @ concat rs))"
    using w rc by simp
  also have "\<dots> = TrimLeftSpace (concat rs)"
    by (simp add: rc)
  finally show ?case using IH by simp
qed

lemma TrimSpace_runes:
  "set rs \<subseteq> set space_runes \<Longrightarrow> TrimSpace (concat rs) = []"
  by (simp add: TrimSpace_def TrimLeftSpace_runes TrimRightSpace.simps)

text \<open>
  Claim C10. A script that is empty or made of white space only (a concatenation of
  white-space runes) makes \<^verbatim>\<open>runPart\<close> return \<^verbatim>\<open>nil, nil\<close> and \<^verbatim>\<open>runScript\<close> return
  \<^verbatim>\<open>nil, nil, nil\<close>, whatever the directory, environment, mode, earlier output and
  timeouts; the world is left as it was: no session is opened, no process started,
  nothing sent.
\<close>

theorem blank_script_returns_nil:
  assumes "set rs \<subseteq> set space_runes"
  shows "runPart c w (concat rs) dir env mode previous = Returns (w, [], None) \<and>
         runScript w mode (concat rs) dir env warn kill = Returns (w, [], [], None)"
  using TrimSpace_runes [OF assms]
  by (simp add: runPart_def runScript_def)

theorem blank_script_returns_nil_witness:
  "runPart \<lparr>server = ''srv'', user = ''root'', warnTimeout = 5 * Minute, killTimeout = 15 * Minute\<rparr>
     \<lparr>sessions = [], reboots = [], processes = [], sent = [], printed = []\<rparr>
     (concat [[CHR 0x20], [CHR 0x0A], [CHR 0xC2, CHR 0xA0], [CHR 0x09]]) ''/tmp'' [(''A'', ''1'')] shellOutput ''earlier'' =
     Returns (\<lparr>sessions = [], reboots = [], processes = [], sent = [], printed = []\<rparr>, [], None) \<and>
   runScript \<lparr>sessions = [], reboots = [], processes = [], sent = [], printed = []\<rparr> shellOutput
     (concat [[CHR 0x20], [CHR 0x0A], [CHR 0xC2, CHR 0xA0], [CHR 0x09]]) ''/tmp'' [(''A'', ''1'')] 0 0 =
     Returns (\<lparr>sessions = [], reboots = [], processes = [], sent = [], printed = []\<rparr>, [], [], None)"
proof -
  have h: "set [[CHR 0x20], [CHR 0x0A], [CHR 0xC2, CHR 0xA0], [CHR 0x09]] \<subseteq> set space_runes"
    by (simp add: space_runes_def)
  from blank_script_returns_nil [OF h] show ?thesis
    by blast
qed

lemma Keys_Set:
  "Keys (Set e k v) = (if k \<in> set (Keys e) then Keys e else Keys e @ [k])"
proof -
  have "map fst (map (\<lambda>p. if fst p = k then (k, v) else p) e) = map fst e"
    by (induction e) auto
  then show ?thesis
    by (simp add: Set_def Keys_def)
qed

lemma Get_Set_same: "Get (Set e k v) k = v"
proof -
  have "map_of (map (\<lambda>p. if fst p = k then (k, v) else p) e) k = Some v" if "k \<in> fst ` set e"
    using that by (induction e) auto
  moreover have "map_of (e @ [(k, v)]) k = Some v" if "k \<notin> fst ` set e"
    using that by (induction e) auto
  ultimately show ?thesis
    by (auto simp: Set_def Get_def Keys_def)
qed


lemma Set_Set: "Set (Set e k a) k b = Set e k b"
proof (cases "k \<in> set (Keys e)")
  case True
  then have "k \<in> set (Keys (Set e k a))"
    by (simp add: Keys_Set)
  then have "Set (Set e k a) k b = map (\<lambda>p. if fst p = k then (k, b) else p) (Set e k a)"
    by (simp add: Set_def)
  also have "\<dots> = map (\<lambda>p. if fst p = k then (k, b) else p) e"
    using True by (simp add: Set_def)
  finally show ?thesis using True by (simp add: Set_def)
next
  case False
  then have same: "map (\<lambda>p. if fst p = k then (k, b) else p) e = e"
    by (induction e) (auto simp: Keys_def)
  have "k \<in> set (Keys (Set e k a))"
    by (simp add: Keys_Set)
  then have "Set (Set e k a) k b = map (\<lambda>p. if fst p = k then (k, b) else p) (Set e k a)"
    by (simp add: Set_def)
  also have "\<dots> = e @ [(k, b)]"
    using False same by (simp add: Set_def)
  finally show ?thesis using False by (simp add: Set_def)
qed

lemma run_reboot_failed_env:
  "run_reboot_failed c env w = Returns r \<Longrightarrow> \<exists>w' out err. r = Return w' env out err"
  by (auto simp: run_reboot_failed_def split: list.splits if_splits)

lemma run_step_env:
  "run_step n c script dir mode st = Returns r \<Longrightarrow>
     (case r of Continue st' \<Rightarrow> rs_env st' = attempt_env st
              | Return w e out err \<Rightarrow> e = attempt_env st)"
  apply (subst (asm) run_step.simps)
  apply (auto simp: Let_def split: outcome.splits prod.splits option.splits error.splits list.splits if_splits dest!: run_reboot_failed_env)
  done







lemma runPart_reboot:
  assumes script: "TrimSpace script \<noteq> []"
      and mode: "mode = traceOutput \<or> mode = combinedOutput \<or> mode = splitOutput"
      and sess: "sessions w = s # rest" "NewSession_err s = None" "StdinPipe_err s = None"
      and cmd: "runCommand c (Start_err s) (events s) True True (new_supervisor w) =
                  (sv, Returns (Some (ExitError 213 msg)))"
      and m: "rebootExp_FindSubmatch (last_line (outbuf sv)) = Some key"
  shows "\<exists>w'. runPart c w script dir env mode previous =
           Returns (w', previous @ outbuf sv, Some (RebootError key))"
proof -
  have s1: "new_supervisor (w\<lparr>sessions := rest, sent := x\<rparr>) = new_supervisor w" for x
    by (simp add: new_supervisor_def)
  have s2: "new_supervisor (w\<lparr>sessions := rest\<rparr>\<lparr>sent := x\<rparr>) = new_supervisor w" for x
    by (simp add: new_supervisor_def)
  from mode show ?thesis
    using script sess cmd m
    by (auto simp: runPart_def Let_def s1 s2 runPart_finish_def
        traceOutput_def combinedOutput_def splitOutput_def shellOutput_def)
qed


lemma run_step_part_returns:
  assumes "runPart c (rs_world st) script dir (attempt_env st) mode (rs_output st) = Returns (w, out, err)"
      and "\<forall>k. err \<noteq> Some (RebootError k)"
  shows "run_step n c script dir mode st = Returns (Return w (attempt_env st) out err)"
  using assms
  by (subst run_step.simps) (auto simp: Let_def split: option.splits error.splits)

lemma run_step_part_blocks:
  assumes "runPart c (rs_world st) script dir (attempt_env st) mode (rs_output st) = Blocks"
  shows "run_step n c script dir mode st = Blocks"
  using assms by (subst run_step.simps) (simp add: Let_def)

lemma run_step_part_panics:
  assumes "runPart c (rs_world st) script dir (attempt_env st) mode (rs_output st) = Panics"
  shows "run_step n c script dir mode st = Panics"
  using assms by (subst run_step.simps) (simp add: Let_def)

text \<open>
  Claim C1. In a mode that captures standard output, when the remote command exits with
  status 213 and the last line of its trimmed standard output matches \<^verbatim>\<open>rebootExp\<close> with
  key \<open>key\<close>, \<^verbatim>\<open>runPart\<close> returns the earlier output followed by this standard output,
  with a \<^verbatim>\<open>rebootError\<close> carrying \<open>key\<close>. Whenever the loop of \<^verbatim>\<open>run\<close> then goes on to a
  next attempt, that attempt starts from the output with a newline added and with \<open>key\<close>
  for its reboot key, and it calls \<^verbatim>\<open>runPart\<close> with the caller's environment in which
  \<^verbatim>\<open>SPREAD_REBOOT\<close> is set to \<open>key\<close>, or to the decimal string of its attempt counter when
  \<open>key\<close> is empty: the attempt returns what that call returns (blocks or panics as it
  does), and whichever way the attempt ends, this is the environment it leaves.
\<close>

theorem reboot_round_trip:
  assumes script: "TrimSpace script \<noteq> []"
      and mode: "mode = traceOutput \<or> mode = combinedOutput \<or> mode = splitOutput"
      and sess: "sessions (rs_world st) = s # rest" "NewSession_err s = None" "StdinPipe_err s = None"
      and cmd: "runCommand c (Start_err s) (events s) True True (new_supervisor (rs_world st)) =
                  (sv, Returns (Some (ExitError 213 msg)))"
      and m: "rebootExp_FindSubmatch (last_line (outbuf sv)) = Some key"
  shows "(\<forall>env previous. \<exists>w'. runPart c (rs_world st) script dir env mode previous =
            Returns (w', previous @ outbuf sv, Some (RebootError key))) \<and>
         (\<forall>st'. run_step n c script dir mode st = Returns (Continue st') \<longrightarrow>
            (let nxt = st'\<lparr>reboot_count := reboot_count st + 1\<rparr>;
                 env = Set (rs_env st) ''SPREAD_REBOOT''
                         (if key = [] then Itoa (reboot_count st + 1) else key)
             in rebootKey st' = key \<and>
                rs_output st' = (rs_output st @ outbuf sv) @ [nl] \<and>
                run_loop (Suc n) c script dir mode st = run_loop n c script dir mode nxt \<and>
                Get env ''SPREAD_REBOOT'' = (if key = [] then Itoa (reboot_count st + 1) else key) \<and>
                (\<forall>k w out err.
                   runPart c (rs_world nxt) script dir env mode (rs_output nxt) = Returns (w, out, err) \<and>
                   (\<forall>rkey. err \<noteq> Some (RebootError rkey)) \<longrightarrow>
                   run_step k c script dir mode nxt = Returns (Return w env out err)) \<and>
                (\<forall>k. runPart c (rs_world nxt) script dir env mode (rs_output nxt) = Blocks \<longrightarrow>
                   run_step k c script dir mode nxt = Blocks) \<and>
                (\<forall>k. runPart c (rs_world nxt) script dir env mode (rs_output nxt) = Panics \<longrightarrow>
                   run_step k c script dir mode nxt = Panics) \<and>
                (\<forall>k st''. run_step k c script dir mode nxt = Returns (Continue st'') \<longrightarrow>
                   rs_env st'' = env) \<and>
                (\<forall>k w e out err. run_step k c script dir mode nxt = Returns (Return w e out err) \<longrightarrow>
                   e = env)))"
proof (intro conjI allI impI)
  fix env previous
  show "\<exists>w'. runPart c (rs_world st) script dir env mode previous =
            Returns (w', previous @ outbuf sv, Some (RebootError key))"
    by (rule runPart_reboot [OF script mode sess cmd m])
next
  fix st'
  assume step: "run_step n c script dir mode st = Returns (Continue st')"
  define nxt where "nxt = st'\<lparr>reboot_count := reboot_count st + 1\<rparr>"
  define E where "E = Set (rs_env st) ''SPREAD_REBOOT''
                         (if key = [] then Itoa (reboot_count st + 1) else key)"
  from runPart_reboot [OF script mode sess cmd m] obtain w' where
    part: "runPart c (rs_world st) script dir (attempt_env st) mode (rs_output st) =
             Returns (w', rs_output st @ outbuf sv, Some (RebootError key))"
    by blast
  from step part have st': "rebootKey st' = key" "rs_output st' = (rs_output st @ outbuf sv) @ [nl]"
      "reboot_count st' = reboot_count st"
    by (subst (asm) run_step.simps,
        auto simp: Let_def run_reboot_failed_def
          split: outcome.splits prod.splits option.splits list.splits if_splits)+
  from run_step_env [OF step] have env': "rs_env st' = attempt_env st"
    by simp
  have aenv: "attempt_env nxt = E"
    using st' env' by (simp add: nxt_def E_def attempt_env_def attempt_key_def Set_Set)
  have loop: "run_loop (Suc n) c script dir mode st = run_loop n c script dir mode nxt"
    using step st' by (simp add: nxt_def)
  have get: "Get E ''SPREAD_REBOOT'' = (if key = [] then Itoa (reboot_count st + 1) else key)"
    by (simp add: E_def Get_Set_same)
  have ret: "run_step k c script dir mode nxt = Returns (Return w E out err)"
    if "runPart c (rs_world nxt) script dir E mode (rs_output nxt) = Returns (w, out, err) \<and>
        (\<forall>rkey. err \<noteq> Some (RebootError rkey))" for k w out err
    using run_step_part_returns [of c nxt script dir mode w out err k] that aenv by simp
  have blk: "run_step k c script dir mode nxt = Blocks"
    if "runPart c (rs_world nxt) script dir E mode (rs_output nxt) = Blocks" for k
    using run_step_part_blocks [of c nxt script dir mode k] that aenv by simp
  have pan: "run_step k c script dir mode nxt = Panics"
    if "runPart c (rs_world nxt) script dir E mode (rs_output nxt) = Panics" for k
    using run_step_part_panics [of c nxt script dir mode k] that aenv by simp
  have cont: "rs_env st'' = E" if "run_step k c script dir mode nxt = Returns (Continue st'')" for k st''
    using run_step_env [OF that] aenv by simp
  have fin: "e = E" if "run_step k c script dir mode nxt = Returns (Return w e out err)" for k w e out err
    using run_step_env [OF that] aenv by simp
  show "let nxt = st'\<lparr>reboot_count := reboot_count st + 1\<rparr>;
                 env = Set (rs_env st) ''SPREAD_REBOOT''
                         (if key = [] then Itoa (reboot_count st + 1) else key)
             in rebootKey st' = key \<and>
                rs_output st' = (rs_output st @ outbuf sv) @ [nl] \<and>
                run_loop (Suc n) c script dir mode st = run_loop n c script dir mode nxt \<and>
                Get env ''SPREAD_REBOOT'' = (if key = [] then Itoa (reboot_count st + 1) else key) \<and>
                (\<forall>k w out err.
                   runPart c (rs_world nxt) script dir env mode (rs_output nxt) = Returns (w, out, err) \<and>
                   (\<forall>rkey. err \<noteq> Some (RebootError rkey)) \<longrightarrow>
                   run_step k c script dir mode nxt = Returns (Return w env out err)) \<and>
                (\<forall>k. runPart c (rs_world nxt) script dir env mode (rs_output nxt) = Blocks \<longrightarrow>
                   run_step k c script dir mode nxt = Blocks) \<and>
                (\<forall>k. runPart c (rs_world nxt) script dir env mode (rs_output nxt) = Panics \<longrightarrow>
                   run_step k c script dir mode nxt = Panics) \<and>
                (\<forall>k st''. run_step k c script dir mode nxt = Returns (Continue st'') \<longrightarrow>
                   rs_env st'' = env) \<and>
                (\<forall>k w e out err. run_step k c script dir mode nxt = Returns (Return w e out err) \<longrightarrow>
                   e = env)"
    unfolding Let_def nxt_def [symmetric] E_def [symmetric]
    using st'(1,2) loop get ret blk pan cont fin by blast
qed


theorem reboot_round_trip_witness:
  "(\<exists>w'. runPart dialled
       \<lparr>sessions = [ok_session [WriteStdout (''before'' @ [nl] @ ''<REBOOT token1>'' @ [nl]),
                                 Done (Some (ExitError 213 ''Process exited with status 213''))],
                     lost_session, lost_session,
                     ok_session [WriteStdout (''after'' @ [nl]), Done None]],
        reboots = [\<lparr>timedout = False, dialOnReboot = None\<rparr>], processes = [], sent = [], printed = []\<rparr>
       ''echo before; REBOOT token1; echo after'' [] [(''SPREAD_REBOOT'', ''0'')] combinedOutput [] =
     Returns (w', ''before'' @ [nl] @ ''<REBOOT token1>'' @ [nl], Some (RebootError ''token1''))) \<and>
   (\<exists>st' w''. run_step 1 dialled ''echo before; REBOOT token1; echo after'' [] combinedOutput
       (initial_state
          \<lparr>sessions = [ok_session [WriteStdout (''before'' @ [nl] @ ''<REBOOT token1>'' @ [nl]),
                                    Done (Some (ExitError 213 ''Process exited with status 213''))],
                        lost_session, lost_session,
                        ok_session [WriteStdout (''after'' @ [nl]), Done None]],
           reboots = [\<lparr>timedout = False, dialOnReboot = None\<rparr>], processes = [], sent = [], printed = []\<rparr>
          []) = Returns (Continue st') \<and>
     rebootKey st' = ''token1'' \<and>
     rs_output st' = ''before'' @ [nl] @ ''<REBOOT token1>'' @ [nl] @ [nl] \<and>
     run_step 0 dialled ''echo before; REBOOT token1; echo after'' [] combinedOutput
       (st'\<lparr>reboot_count := 1\<rparr>) =
       Returns (Return w'' [(''SPREAD_REBOOT'', ''token1'')]
                 (''before'' @ [nl] @ ''<REBOOT token1>'' @ [nl] @ [nl] @ ''after'') None) \<and>
     last (sent w'') =
       (bash_cmd, runPart_script (''echo before; REBOOT token1; echo after'' @ [nl]) []
                    [(''SPREAD_REBOOT'', ''token1'')] combinedOutput) \<and>
     Get [(''SPREAD_REBOOT'', ''token1'')] ''SPREAD_REBOOT'' = ''token1'')"
proof -
  let ?s = "ok_session [WriteStdout (''before'' @ [nl] @ ''<REBOOT token1>'' @ [nl]),
                        Done (Some (ExitError 213 ''Process exited with status 213''))]"
  let ?after = "ok_session [WriteStdout (''after'' @ [nl]), Done None]"
  let ?w = "\<lparr>sessions = [?s, lost_session, lost_session, ?after],
             reboots = [\<lparr>timedout = False, dialOnReboot = None\<rparr>], processes = [], sent = [], printed = []\<rparr>"
  let ?st = "initial_state ?w []"
  let ?sv = "\<lparr>outbuf = ''before'' @ [nl] @ ''<REBOOT token1>'' @ [nl], errbuf = [], lastOut = 0,
              lastErr = 0, killed = False, log = []\<rparr>"
  let ?script = "''echo before; REBOOT token1; echo after''"
  let ?sent3 = "[(bash_cmd, runPart_script (?script @ [nl]) [] [(''SPREAD_REBOOT'', ''0'')] combinedOutput),
                 (bash_cmd, runPart_script (''reboot &'' @ [nl] @ ''sleep 899'' @ [nl]) []
                              [(''SPREAD_REBOOT'', ''0'')] combinedOutput),
                 (bash_cmd, runPart_script (''echo should-have-disconnected'' @ [nl]) []
                              [(''SPREAD_REBOOT'', ''0'')] combinedOutput)]"
  let ?st1 = "\<lparr>rs_world = \<lparr>sessions = [?after], reboots = [], processes = [],
           sent = ?sent3, printed = [''Rebooting srv as requested...'']\<rparr>,
         rs_env = [(''SPREAD_REBOOT'', ''0'')], reboot_count = 0, rebootKey = ''token1'',
         rs_output = ''before'' @ [nl] @ ''<REBOOT token1>'' @ [nl] @ [nl]\<rparr>"
  let ?wF = "\<lparr>sessions = [], reboots = [], processes = [],
           sent = ?sent3 @ [(bash_cmd, runPart_script (?script @ [nl]) []
                               [(''SPREAD_REBOOT'', ''token1'')] combinedOutput)],
           printed = [''Rebooting srv as requested...'']\<rparr>"
  let ?out = "''before'' @ [nl] @ ''<REBOOT token1>'' @ [nl] @ [nl] @ ''after''"
  have h1: "TrimSpace ?script \<noteq> []"
    by code_simp
  have h2: "combinedOutput = traceOutput \<or> combinedOutput = combinedOutput \<or> combinedOutput = splitOutput"
    by simp
  have h3: "sessions (rs_world ?st) = ?s # [lost_session, lost_session, ?after]"
    by (simp add: initial_state_def)
  have h4: "NewSession_err ?s = None" and h5: "StdinPipe_err ?s = None"
    by (simp_all add: ok_session_def)
  have h6: "runCommand dialled (Start_err ?s) (events ?s) True True (new_supervisor (rs_world ?st)) =
      (?sv, Returns (Some (ExitError 213 ''Process exited with status 213'')))"
    by code_simp
  have h7: "rebootExp_FindSubmatch (last_line (outbuf ?sv)) = Some ''token1''"
    by code_simp
  have step: "run_step 1 dialled ?script [] combinedOutput ?st = Returns (Continue ?st1)"
    by code_simp
  have part2: "runPart dialled (rs_world (?st1\<lparr>reboot_count := reboot_count ?st + 1\<rparr>)) ?script []
      (Set (rs_env ?st) ''SPREAD_REBOOT'' (if ''token1'' = [] then Itoa (reboot_count ?st + 1) else ''token1''))
      combinedOutput (rs_output (?st1\<lparr>reboot_count := reboot_count ?st + 1\<rparr>)) =
      Returns (?wF, ?out, None)"
    by code_simp
  note T = reboot_round_trip [OF h1 h2 h3 h4 h5 h6 h7, where n = 1 and dir = "[]"]
  from T have "\<exists>w'. runPart dialled (rs_world ?st) ?script []
      [(''SPREAD_REBOOT'', ''0'')] combinedOutput [] =
      Returns (w', [] @ outbuf ?sv, Some (RebootError ''token1''))"
    by blast
  then have c1: "\<exists>w'. runPart dialled ?w ?script []
      [(''SPREAD_REBOOT'', ''0'')] combinedOutput [] =
      Returns (w', ''before'' @ [nl] @ ''<REBOOT token1>'' @ [nl], Some (RebootError ''token1''))"
    by (simp add: initial_state_def)
  from T step have N: "rebootKey ?st1 = ''token1'' \<and>
      rs_output ?st1 = (rs_output ?st @ outbuf ?sv) @ [nl] \<and>
      (\<forall>k w out err.
         runPart dialled (rs_world (?st1\<lparr>reboot_count := reboot_count ?st + 1\<rparr>)) ?script []
           (Set (rs_env ?st) ''SPREAD_REBOOT'' (if ''token1'' = [] then Itoa (reboot_count ?st + 1) else ''token1''))
           combinedOutput (rs_output (?st1\<lparr>reboot_count := reboot_count ?st + 1\<rparr>)) = Returns (w, out, err) \<and>
         (\<forall>rkey. err \<noteq> Some (RebootError rkey)) \<longrightarrow>
         run_step k dialled ?script [] combinedOutput (?st1\<lparr>reboot_count := reboot_count ?st + 1\<rparr>) =
           Returns (Return w
             (Set (rs_env ?st) ''SPREAD_REBOOT'' (if ''token1'' = [] then Itoa (reboot_count ?st + 1) else ''token1''))
             out err))"
    unfolding Let_def by blast
  from N part2 have "run_step 0 dialled ?script [] combinedOutput (?st1\<lparr>reboot_count := reboot_count ?st + 1\<rparr>) =
      Returns (Return ?wF
        (Set (rs_env ?st) ''SPREAD_REBOOT'' (if ''token1'' = [] then Itoa (reboot_count ?st + 1) else ''token1''))
        ?out None)"
    by blast
  then have c3: "run_step 0 dialled ?script [] combinedOutput (?st1\<lparr>reboot_count := 1\<rparr>) =
      Returns (Return ?wF [(''SPREAD_REBOOT'', ''token1'')] ?out None)"
    by (simp add: initial_state_def Set_def Keys_def)
  have c2: "rebootKey ?st1 = ''token1'' \<and>
      rs_output ?st1 = ''before'' @ [nl] @ ''<REBOOT token1>'' @ [nl] @ [nl]"
    by simp
  have c4: "last (sent ?wF) = (bash_cmd, runPart_script (?script @ [nl]) []
                    [(''SPREAD_REBOOT'', ''token1'')] combinedOutput)"
    by simp
  have c5: "Get [(''SPREAD_REBOOT'', ''token1'')] ''SPREAD_REBOOT'' = ''token1''"
    by (simp add: Get_def)
  from c1 step c2 c3 c4 c5 show ?thesis
    by blast
qed

lemma runScript_timeouts_returns:
  "\<exists>w k. runScript_timeouts warn kill = Returns (w, k)"
  by (auto simp: runScript_timeouts_def Let_def defaultWarnTimeout_def maxTimeout_def
      Minute_def Hour_def Second_def)

text \<open>
  Claim C7. In the local executor, when the process has exit status 213 and the last line
  of its trimmed standard output matches \<^verbatim>\<open>commandExp\<close> with groups 1 and 2, group 1
  \<^verbatim>\<open>ERROR\<close> makes \<^verbatim>\<open>runScript\<close> return no output and a plain error whose message is group 2,
  and group 1 \<^verbatim>\<open>FATAL\<close> makes it return a \<^verbatim>\<open>FatalError\<close> wrapping that error. The run of
  \<^verbatim>\<open>FATAL oops\<close> in combined mode with timeouts 0 and 0, where the \<^verbatim>\<open>FATAL\<close> function of the
  assembled script prints \<^verbatim>\<open><FATAL oops>\<close> and exits with 213, returns a \<^verbatim>\<open>FatalError\<close> with
  the message \<^verbatim>\<open>oops\<close>.
\<close>

theorem local_markers:
  assumes script: "TrimSpace script \<noteq> []"
      and mode: "mode = traceOutput \<or> mode = combinedOutput \<or> mode = splitOutput"
      and proc: "processes w = p # rest" "cmd_Start_err p = None"
      and loop: "runScript_loop (new_supervisor w) (cmd_events p) = (sv, Returns err)"
      and status: "exitStatus err = 213"
      and m: "commandExp_FindSubmatch (last_line (outbuf sv)) = Some (g1, g2)"
  shows "(g1 = ''ERROR'' \<longrightarrow>
           (\<exists>w'. runScript w mode script dir env warn kill =
              Returns (w', [], [], Some (ErrorString g2)))) \<and>
         (g1 = ''FATAL'' \<longrightarrow>
           (\<exists>w'. runScript w mode script dir env warn kill =
              Returns (w', [], [], Some (FatalError (ErrorString g2)))))"
proof -
  have s1: "new_supervisor (w\<lparr>processes := rest, sent := x\<rparr>) = new_supervisor w" for x
    by (simp add: new_supervisor_def)
  obtain wt kt where t: "runScript_timeouts warn kill = Returns (wt, kt)"
    using runScript_timeouts_returns by blast
  have fin: "runScript_finish sv err =
      (if g1 = ''ERROR'' then ([], [], Some (ErrorString g2))
       else if g1 = ''FATAL'' then ([], [], Some (FatalError (ErrorString g2)))
       else runScript_finish sv err)"
    using status m by (simp add: runScript_finish_def)
  show ?thesis
  proof (intro conjI impI)
    assume "g1 = ''ERROR''"
    with fin have "runScript_finish sv err = ([], [], Some (ErrorString g2))" by simp
    with script mode proc loop t
    show "\<exists>w'. runScript w mode script dir env warn kill = Returns (w', [], [], Some (ErrorString g2))"
      by (auto simp: runScript_def Let_def s1)
  next
    assume "g1 = ''FATAL''"
    with fin have "runScript_finish sv err = ([], [], Some (FatalError (ErrorString g2)))" by simp
    with script mode proc loop t
    show "\<exists>w'. runScript w mode script dir env warn kill =
        Returns (w', [], [], Some (FatalError (ErrorString g2)))"
      by (auto simp: runScript_def Let_def s1)
  qed
qed

theorem local_markers_witness:
  "\<exists>w'. runScript
      \<lparr>sessions = [], reboots = [],
       processes = [\<lparr>cmd_Start_err = None,
                     cmd_events = [WriteStdout (''<FATAL oops>'' @ [nl]),
                                   Done (Some (ExitError 213 ''exit status 213''))]\<rparr>],
       sent = [], printed = []\<rparr>
      combinedOutput ''FATAL oops'' [] [(''A'', ''1'')] 0 0 =
    Returns (w', [], [], Some (FatalError (ErrorString ''oops''))) \<and>
    Error (FatalError (ErrorString ''oops'')) = ''oops''"
proof -
  let ?p = "\<lparr>cmd_Start_err = None,
             cmd_events = [WriteStdout (''<FATAL oops>'' @ [nl]),
                           Done (Some (ExitError 213 ''exit status 213''))]\<rparr>"
  let ?w = "\<lparr>sessions = [], reboots = [], processes = [?p], sent = [], printed = []\<rparr>"
  let ?sv = "\<lparr>outbuf = ''<FATAL oops>'' @ [nl], errbuf = [], lastOut = 0, lastErr = 0,
              killed = False, log = []\<rparr>"
  have h1: "TrimSpace ''FATAL oops'' \<noteq> []"
    by code_simp
  have h2: "combinedOutput = traceOutput \<or> combinedOutput = combinedOutput \<or> combinedOutput = splitOutput"
    by simp
  have h3: "processes ?w = ?p # []" and h4: "cmd_Start_err ?p = None"
    by simp_all
  have h5: "runScript_loop (new_supervisor ?w) (cmd_events ?p) =
      (?sv, Returns (Some (ExitError 213 ''exit status 213'')))"
    by code_simp
  have h6: "exitStatus (Some (ExitError 213 ''exit status 213'')) = 213"
    by simp
  have h7: "commandExp_FindSubmatch (last_line (outbuf ?sv)) = Some (''FATAL'', ''oops'')"
    by code_simp
  from local_markers [OF h1 h2 h3 h4 h5 h6 h7, where dir = "[]" and env = "[(''A'', ''1'')]"
      and warn = 0 and kill = 0]
  show ?thesis
    by simp
qed

lemma write_export_append: "write_export buf k v = buf @ write_export [] k v"
  by (simp add: write_export_def)

lemma write_exports_concat:
  "write_exports buf env ks = buf @ concat (map (\<lambda>k. write_export [] k (Get env k)) ks)"
proof (induction ks arbitrary: buf)
  case Nil
  then show ?case by simp
next
  case (Cons k ks)
  have "write_exports buf env (k # ks) = write_exports (write_export buf k (Get env k)) env ks"
    by simp
  also have "\<dots> = write_export buf k (Get env k) @ concat (map (\<lambda>k. write_export [] k (Get env k)) ks)"
    by (rule Cons.IH)
  also have "\<dots> = buf @ concat (map (\<lambda>k. write_export [] k (Get env k)) (k # ks))"
    by (simp add: write_export_append [of buf])
  finally show ?case .
qed

lemma Split_nl_line:
  "nl \<notin> set b \<Longrightarrow> Split_nl (b @ nl # rest) = b # Split_nl rest"
  by (induction b) auto

lemma Split_nl_lines:
  "(\<forall>k \<in> set ks. nl \<notin> set (body k)) \<Longrightarrow>
     Split_nl (concat (map (\<lambda>k. body k @ [nl]) ks)) = map body ks @ [[]]"
proof (induction ks)
  case Nil
  then show ?case by simp
next
  case (Cons k ks)
  then have "nl \<notin> set (body k)" by simp
  from Split_nl_line [OF this, of "concat (map (\<lambda>k. body k @ [nl]) ks)"] Cons
  show ?case by simp
qed

lemma prefix_key_eq:
  "CHR ''='' \<notin> set k \<Longrightarrow> CHR ''='' \<notin> set k' \<Longrightarrow>
     prefix (k @ ''='') (k' @ ''='' @ x) \<longleftrightarrow> k = k'"
proof (induction k arbitrary: k')
  case Nil
  then show ?case by (cases k') auto
next
  case (Cons a k)
  then show ?case by (cases k') auto
qed

lemma filter_eq_distinct:
  "distinct ks \<Longrightarrow> k \<in> set ks \<Longrightarrow> filter (\<lambda>k'. k' = k) ks = [k]"
proof (induction ks)
  case Nil
  then show ?case by simp
next
  case (Cons a ks)
  show ?case
  proof (cases "a = k")
    case True
    with Cons.prems have "k \<notin> set ks" by simp
    then have "filter (\<lambda>k'. k' = k) ks = []" by (induction ks) auto
    with True show ?thesis by simp
  next
    case False
    with Cons show ?thesis by simp
  qed
qed


text \<open>
  Claim C6, as the code has it. In the script assembled by \<^verbatim>\<open>runPart\<close>, and in the one
  assembled by \<^verbatim>\<open>runScript\<close>, the loop over \<^verbatim>\<open>env.Keys()\<close> puts, between the two fixed
  exports and the rest of the script, one line for each key of \<^verbatim>\<open>env.Keys()\<close> in that
  order: \<^verbatim>\<open>export K=V\<close> with the value as it is when the value is empty or starts with a
  double or single quote, and \<^verbatim>\<open>export K="V"\<close> otherwise. When the keys are distinct and
  hold neither \<^verbatim>\<open>=\<close> nor a newline, and no value holds a newline, exactly one line of what
  the loop wrote begins with \<^verbatim>\<open>export k=\<close>, for every key \<open>k\<close>: the line of that key.
\<close>

theorem environment_exports:
  "let quoted = (\<lambda>k. if Get env k = [] \<or> hd (Get env k) = dquote \<or> hd (Get env k) = squote
                   then Get env k else [dquote] @ Get env k @ [dquote]);
       E = concat (map (\<lambda>k. ''export '' @ k @ ''='' @ quoted k @ [nl]) (Keys env))
   in runPart_script script dir env mode =
        (if dir \<noteq> [] then ''cd '' @ [dquote] @ dir @ [dquote] @ [nl] else []) @
        REBOOT_function @
        ''export DEBIAN_FRONTEND=noninteractive'' @ [nl] @
        ''export DEBIAN_PRIORITY=critical'' @ [nl] @
        E @
        (if mode = shellOutput \<and> Get env ''PS1'' \<noteq> []
         then ''echo PS1='' @ [backslash, squote, squote] @ Get env ''PS1''
                @ [squote, backslash, squote] @ '' > /root/.bashrc'' @ [nl]
         else []) @
        (if mode = traceOutput then ''set -x'' @ [nl] else []) @
        (if mode = shellOutput then [nl] @ script @ [nl]
         else [nl] @ ''('' @ [nl] @ script @ [nl] @ '') < /dev/null'' @ [nl]) \<and>
      runScript_script script env mode =
        ADDRESS_function @ FATAL_function @ ERROR_function @
        ''export DEBIAN_FRONTEND=noninteractive'' @ [nl] @
        ''export DEBIAN_PRIORITY=critical'' @ [nl] @
        E @
        (if mode = traceOutput then ''set -x'' @ [nl] else []) @
        [nl] @ ''('' @ [nl] @ script @ [nl] @ '') < /dev/null'' @ [nl] \<and>
      (distinct (Keys env) \<and>
       (\<forall>k \<in> set (Keys env). CHR ''='' \<notin> set k \<and> nl \<notin> set k \<and> nl \<notin> set (Get env k)) \<longrightarrow>
       (\<forall>k \<in> set (Keys env). export_lines k E = [''export '' @ k @ ''='' @ quoted k]))"
proof -
  define quoted where "quoted = (\<lambda>k. if Get env k = [] \<or> hd (Get env k) = dquote \<or> hd (Get env k) = squote
                   then Get env k else [dquote] @ Get env k @ [dquote])"
  define body where "body = (\<lambda>k. ''export '' @ k @ ''='' @ quoted k)"
  define E where "E = concat (map (\<lambda>k. ''export '' @ k @ ''='' @ quoted k @ [nl]) (Keys env))"
  have line: "write_export [] k (Get env k) = ''export '' @ k @ ''='' @ quoted k @ [nl]" for k
    by (simp add: write_export_def quoted_def)
  have loop: "write_exports buf env (Keys env) = buf @ E" for buf
    by (simp add: write_exports_concat line E_def)
  have remote: "runPart_script script dir env mode =
        (if dir \<noteq> [] then ''cd '' @ [dquote] @ dir @ [dquote] @ [nl] else []) @
        REBOOT_function @
        ''export DEBIAN_FRONTEND=noninteractive'' @ [nl] @
        ''export DEBIAN_PRIORITY=critical'' @ [nl] @
        E @
        (if mode = shellOutput \<and> Get env ''PS1'' \<noteq> []
         then ''echo PS1='' @ [backslash, squote, squote] @ Get env ''PS1''
                @ [squote, backslash, squote] @ '' > /root/.bashrc'' @ [nl]
         else []) @
        (if mode = traceOutput then ''set -x'' @ [nl] else []) @
        (if mode = shellOutput then [nl] @ script @ [nl]
         else [nl] @ ''('' @ [nl] @ script @ [nl] @ '') < /dev/null'' @ [nl])"
    by (simp add: runPart_script_def Let_def loop dquote_def nl_def)
  have loc: "runScript_script script env mode =
        ADDRESS_function @ FATAL_function @ ERROR_function @
        ''export DEBIAN_FRONTEND=noninteractive'' @ [nl] @
        ''export DEBIAN_PRIORITY=critical'' @ [nl] @
        E @
        (if mode = traceOutput then ''set -x'' @ [nl] else []) @
        [nl] @ ''('' @ [nl] @ script @ [nl] @ '') < /dev/null'' @ [nl]"
    by (simp add: runScript_script_def Let_def loop nl_def)
  have count: "export_lines k E = [''export '' @ k @ ''='' @ quoted k]"
    if d: "distinct (Keys env)"
      and wf: "\<forall>k \<in> set (Keys env). CHR ''='' \<notin> set k \<and> nl \<notin> set k \<and> nl \<notin> set (Get env k)"
      and k: "k \<in> set (Keys env)" for k
  proof -
    have E': "E = concat (map (\<lambda>k. body k @ [nl]) (Keys env))"
      by (simp add: E_def body_def)
    have nonl: "\<forall>k \<in> set (Keys env). nl \<notin> set (body k)"
      using wf by (auto simp: body_def quoted_def nl_def dquote_def split: if_splits)
    have lines: "Split_nl E = map body (Keys env) @ [[]]"
      unfolding E' by (rule Split_nl_lines [OF nonl])
    have pre: "HasPrefix (body k') (''export '' @ k @ ''='') \<longleftrightarrow> k' = k"
      if "k' \<in> set (Keys env)" for k'
    proof -
      from that wf k have "CHR ''='' \<notin> set k" "CHR ''='' \<notin> set k'"
        by auto
      from prefix_key_eq [OF this, of "quoted k'"] show ?thesis
        by (auto simp: HasPrefix_prefix body_def)
    qed
    have "filter (\<lambda>l. HasPrefix l (''export '' @ k @ ''='')) (map body (Keys env)) =
          map body (filter (\<lambda>k'. k' = k) (Keys env))"
      unfolding filter_map using pre by (auto simp: o_def intro: arg_cong [where f = "map body"] filter_cong)
    also have "\<dots> = [body k]"
      by (simp add: filter_eq_distinct [OF d k])
    finally have "filter (\<lambda>l. HasPrefix l (''export '' @ k @ ''='')) (map body (Keys env)) = [body k]" .
    moreover have "\<not> HasPrefix [] (''export '' @ k @ ''='')"
      by (simp add: HasPrefix_def)
    ultimately show ?thesis
      by (simp add: export_lines_def lines body_def)
  qed
  from remote loc count show ?thesis
    unfolding Let_def quoted_def [symmetric] E_def [symmetric] by blast
qed

theorem environment_exports_witness:
  \<open>runPart_script (''pwd'' @ [nl]) ''/tmp'' [(''A'', []), (''B'', ''"x"''), (''C'', ''y z'')] splitOutput =
     ''cd "/tmp"'' @ [nl] @ REBOOT_function @
     ''export DEBIAN_FRONTEND=noninteractive'' @ [nl] @
     ''export DEBIAN_PRIORITY=critical'' @ [nl] @
     (''export A='' @ [nl] @ ''export B="x"'' @ [nl] @ ''export C="y z"'' @ [nl]) @
     [nl] @ ''('' @ [nl] @ (''pwd'' @ [nl]) @ [nl] @ '') < /dev/null'' @ [nl] \<and>
   export_lines ''A'' (''export A='' @ [nl] @ ''export B="x"'' @ [nl] @ ''export C="y z"'' @ [nl]) =
     [''export A=''] \<and>
   export_lines ''B'' (''export A='' @ [nl] @ ''export B="x"'' @ [nl] @ ''export C="y z"'' @ [nl]) =
     [''export B="x"''] \<and>
   export_lines ''C'' (''export A='' @ [nl] @ ''export B="x"'' @ [nl] @ ''export C="y z"'' @ [nl]) =
     [''export C="y z"'']\<close>
proof -
  let ?env = \<open>[(''A'', []), (''B'', ''"x"''), (''C'', ''y z'')]\<close>
  let ?quoted = "\<lambda>k. if Get ?env k = [] \<or> hd (Get ?env k) = dquote \<or> hd (Get ?env k) = squote
                   then Get ?env k else [dquote] @ Get ?env k @ [dquote]"
  let ?E = "concat (map (\<lambda>k. ''export '' @ k @ ''='' @ ?quoted k @ [nl]) (Keys ?env))"
  have E: \<open>?E = ''export A='' @ [nl] @ ''export B="x"'' @ [nl] @ ''export C="y z"'' @ [nl]\<close>
    by code_simp
  have q: \<open>?quoted ''A'' = []\<close> \<open>?quoted ''B'' = ''"x"''\<close> \<open>?quoted ''C'' = ''"y z"''\<close>
    by code_simp+
  have wf: "distinct (Keys ?env) \<and>
      (\<forall>k \<in> set (Keys ?env). CHR ''='' \<notin> set k \<and> nl \<notin> set k \<and> nl \<notin> set (Get ?env k))"
    by (simp add: Keys_def Get_def nl_def)
  have ks: "''A'' \<in> set (Keys ?env)" "''B'' \<in> set (Keys ?env)" "''C'' \<in> set (Keys ?env)"
    by (simp_all add: Keys_def)
  note T = environment_exports [where env = ?env and script = "''pwd'' @ [nl]" and dir = "''/tmp''"
      and mode = splitOutput, unfolded Let_def]
  from T have r: "runPart_script (''pwd'' @ [nl]) ''/tmp'' ?env splitOutput =
        (if ''/tmp'' \<noteq> [] then ''cd '' @ [dquote] @ ''/tmp'' @ [dquote] @ [nl] else []) @
        REBOOT_function @
        ''export DEBIAN_FRONTEND=noninteractive'' @ [nl] @
        ''export DEBIAN_PRIORITY=critical'' @ [nl] @
        ?E @
        (if splitOutput = shellOutput \<and> Get ?env ''PS1'' \<noteq> []
         then ''echo PS1='' @ [backslash, squote, squote] @ Get ?env ''PS1''
                @ [squote, backslash, squote] @ '' > /root/.bashrc'' @ [nl]
         else []) @
        (if splitOutput = traceOutput then ''set -x'' @ [nl] else []) @
        (if splitOutput = shellOutput then [nl] @ (''pwd'' @ [nl]) @ [nl]
         else [nl] @ ''('' @ [nl] @ (''pwd'' @ [nl]) @ [nl] @ '') < /dev/null'' @ [nl])"
    by blast
  from T wf have "\<forall>k \<in> set (Keys ?env). export_lines k ?E = [''export '' @ k @ ''='' @ ?quoted k]"
    by blast
  with ks have l: "export_lines ''A'' ?E = [''export '' @ ''A'' @ ''='' @ ?quoted ''A'']"
      "export_lines ''B'' ?E = [''export '' @ ''B'' @ ''='' @ ?quoted ''B'']"
      "export_lines ''C'' ?E = [''export '' @ ''C'' @ ''='' @ ?quoted ''C'']"
    by blast+
  from r have r': \<open>runPart_script (''pwd'' @ [nl]) ''/tmp'' ?env splitOutput =
     ''cd "/tmp"'' @ [nl] @ REBOOT_function @
     ''export DEBIAN_FRONTEND=noninteractive'' @ [nl] @
     ''export DEBIAN_PRIORITY=critical'' @ [nl] @
     (''export A='' @ [nl] @ ''export B="x"'' @ [nl] @ ''export C="y z"'' @ [nl]) @
     [nl] @ ''('' @ [nl] @ (''pwd'' @ [nl]) @ [nl] @ '') < /dev/null'' @ [nl]\<close>
    unfolding E by (simp add: splitOutput_def shellOutput_def traceOutput_def dquote_def)
  from l have l': \<open>export_lines ''A'' (''export A='' @ [nl] @ ''export B="x"'' @ [nl] @ ''export C="y z"'' @ [nl]) =
     [''export A='']\<close>
   \<open>export_lines ''B'' (''export A='' @ [nl] @ ''export B="x"'' @ [nl] @ ''export C="y z"'' @ [nl]) =
     [''export B="x"'']\<close>
   \<open>export_lines ''C'' (''export A='' @ [nl] @ ''export B="x"'' @ [nl] @ ''export C="y z"'' @ [nl]) =
     [''export C="y z"'']\<close>
    unfolding E q by simp_all
  from r' l' show ?thesis
    by blast
qed

text \<open>
  Claim C6 as stated fails: the script as a whole can hold more than one line beginning
  with \<^verbatim>\<open>export k=\<close> for a key \<open>k\<close> of the environment. With \<^verbatim>\<open>DEBIAN_FRONTEND\<close> in the
  environment, the script has the fixed export of it and the environment's after it; and
  a user script may export a key of the environment itself.
\<close>

theorem export_line_twice_counterexample:
  \<open>export_lines ''DEBIAN_FRONTEND''
     (runPart_script (''true'' @ [nl]) [] [(''DEBIAN_FRONTEND'', ''teletype'')] combinedOutput) =
     [''export DEBIAN_FRONTEND=noninteractive'', ''export DEBIAN_FRONTEND="teletype"''] \<and>
   Keys [(''DEBIAN_FRONTEND'', ''teletype'')] = [''DEBIAN_FRONTEND''] \<and>
   export_lines ''A'' (runScript_script (''export A=2'' @ [nl]) [(''A'', ''1'')] combinedOutput) =
     [''export A="1"'', ''export A=2''] \<and>
   Keys [(''A'', ''1'')] = [''A'']\<close>
  by code_simp

text \<open>
  Claim C8 at twelve reboot requests in a row, each reboot going through: \<^verbatim>\<open>run\<close> returns
  no output and an error whose message names the server and, for the limit, has
  \<^verbatim>\<open>%!d(MISSING)\<close>: \<^verbatim>\<open>fmt.Errorf\<close> is given one operand for two verbs. The twelfth request
  is not served: two of the sessions and one of the reboots are left. With eleven
  requests in a row and a plain run after them, all eleven reboots are made and \<^verbatim>\<open>run\<close>
  returns no error.
\<close>

theorem reboot_limit_message:
  "(case run 12 dialled (rebooting_world 12 []) ''REBOOT'' [] None combinedOutput of
      Returns (w, env, out, err) \<Rightarrow> Some (out, err, length (sessions w), length (reboots w))
    | _ \<Rightarrow> None) =
     Some ([], Some (ErrorString ''srv rebooted more than %!d(MISSING) times''), 2, 1) \<and>
   (case run 12 dialled (rebooting_world 11 [ok_session [WriteStdout (''done'' @ [nl]), Done None]])
           ''REBOOT'' [] None combinedOutput of
      Returns (w, env, out, err) \<Rightarrow> Some (err, length (sessions w), length (reboots w))
    | _ \<Rightarrow> None) =
     Some (None, 0, 0)"
  by code_simp

end
